theory Spec2Isabelle
  imports Complex_Main "HOL-Library.Sublist"
begin

text \<open>
  A GraphQL endpoint over a Prisma store. \<open>schema.ts\<close> declares the types, the query
  root and the mutation root, with one resolver per field that reads or writes the
  store through the Prisma client; \<open>index.ts\<close> is the route handler, in two variants:
  one hands the request to \<open>graphql(...)\<close>, the other first validates the parsed
  document against a depth limit of 5. Parsing, validation and execution are done by
  the \<open>graphql\<close> and \<open>graphql-depth-limit\<close> packages.
\<close>

section \<open>Values, thrown errors and the Prisma client\<close>

text \<open>
  JavaScript values as they travel between the Prisma client, the resolvers and the
  response: \<open>undefined\<close>, \<open>null\<close>, booleans, numbers, strings, arrays and
  plain objects (a list of key/value pairs, in insertion order). Numbers are never
  computed with, only passed on.
\<close>

datatype jsval =
    JUndefined
  | JNull
  | JBool bool
  | JNum real
  | JStr string
  | JList "jsval list"
  | JObj "(string \<times> jsval) list"

type_synonym row = "(string \<times> jsval) list"

text \<open>Property access \<open>o.k\<close> on a value that is neither null nor undefined: a missing
  property, and any property of a primitive, reads as \<open>undefined\<close>.\<close>

definition getprop :: "jsval \<Rightarrow> string \<Rightarrow> jsval" where
  "getprop v k = (case v of
      JObj kvs \<Rightarrow> (case map_of kvs k of Some x \<Rightarrow> x | None \<Rightarrow> JUndefined)
    | _ \<Rightarrow> JUndefined)"

text \<open>The destructured argument object of a resolver, \<open>{ id, dto }\<close>: an argument that was
  not supplied reads as \<open>undefined\<close>.\<close>

definition arg :: "(string \<times> jsval) list \<Rightarrow> string \<Rightarrow> jsval" where
  "arg as k = (case map_of as k of Some x \<Rightarrow> x | None \<Rightarrow> JUndefined)"

text \<open>What a \<open>catch (error)\<close> clause can receive: an instance of \<open>Error\<close> with its
  message, or some other thrown value (one that is not nullish and has no \<open>message\<close>
  property, so that \<open>error.message\<close> reads as \<open>undefined\<close>).\<close>

datatype thrown = ErrorObj string | NonError

text \<open>The template-literal rendering \<open>${error.message}\<close>.\<close>

fun error_message :: "thrown \<Rightarrow> string" where
  "error_message (ErrorObj m) = m"
| "error_message NonError = ''undefined''"

text \<open>
  The Prisma client is a parameter of \<open>createGraphQLSchema\<close>; its implementation is the
  external repository layer. It is taken here as a record of operations over a store
  of some type \<open>'s\<close>, one operation per client method the resolvers call, each taking
  the model it is called on (\<open>prisma.user\<close>, \<open>prisma.post\<close>, ...) and the argument
  object. Every operation may fail with a thrown value; the writing operations also
  return the new store.
\<close>

datatype model = M_memberType | M_user | M_post | M_profile | M_subscribersOnAuthors

record 's prisma =
  findMany :: "model \<Rightarrow> jsval \<Rightarrow> 's \<Rightarrow> thrown + row list"
  findFirst :: "model \<Rightarrow> jsval \<Rightarrow> 's \<Rightarrow> thrown + row option"
  create :: "model \<Rightarrow> jsval \<Rightarrow> 's \<Rightarrow> (thrown + row) \<times> 's"
  update :: "model \<Rightarrow> jsval \<Rightarrow> 's \<Rightarrow> (thrown + row) \<times> 's"
  delete :: "model \<Rightarrow> jsval \<Rightarrow> 's \<Rightarrow> (thrown + row) \<times> 's"
  first_rejection :: "thrown list \<Rightarrow> thrown"

text \<open>\<open>findFirst\<close> resolves to the row or to \<open>null\<close>; \<open>findMany\<close> to an array of rows.\<close>

definition row_or_null :: "row option \<Rightarrow> jsval" where
  "row_or_null r = (case r of None \<Rightarrow> JNull | Some x \<Rightarrow> JObj x)"

definition rows :: "row list \<Rightarrow> jsval" where
  "rows rs = JList (map JObj rs)"

text \<open>
  \<open>Promise.all\<close> over the results of the mapped calls. The calls are in flight
  together: when every call succeeds the result is the array of their values, by
  position; when some fail it is the rejection that settles first in time. Which one
  that is depends on the client's timing, so the client carries the choice,
  \<open>first_rejection\<close>, among the rejections listed by position (a choice outside
  the list falls back to the first by position).
\<close>

fun rejections :: "(thrown + 'a) list \<Rightarrow> thrown list" where
  "rejections [] = []"
| "rejections (Inl e # rs) = e # rejections rs"
| "rejections (Inr v # rs) = rejections rs"

fun fulfilled :: "(thrown + 'a) list \<Rightarrow> 'a list" where
  "fulfilled [] = []"
| "fulfilled (Inl e # rs) = fulfilled rs"
| "fulfilled (Inr v # rs) = v # fulfilled rs"

definition Promise_all :: "(thrown list \<Rightarrow> thrown) \<Rightarrow> (thrown + jsval) list \<Rightarrow> thrown + jsval list" where
  "Promise_all settles rs =
     (case rejections rs of
        [] \<Rightarrow> Inr (fulfilled rs)
      | e # es \<Rightarrow> Inl (if settles (e # es) \<in> set (e # es) then settles (e # es) else e))"

section \<open>The type registry: \<open>schema.ts\<close>\<close>

text \<open>
  Types refer to one another by name, so that \<open>User\<close> can mention itself. A resolver
  takes the parent value, the argument object and the store, and returns a value or
  throws, together with the store it leaves.
\<close>

datatype gtype = GraphQLNamed string | GraphQLList gtype | GraphQLNonNull gtype

type_synonym 's resolver = "jsval \<Rightarrow> (string \<times> jsval) list \<Rightarrow> 's \<Rightarrow> (thrown + jsval) \<times> 's"

record 's field =
  ftype :: gtype
  args :: "(string \<times> gtype) list"
  resolve :: "'s resolver option"

datatype 's named_type =
    GraphQLScalarType "jsval \<Rightarrow> bool"
  | GraphQLEnumType "string list"
  | GraphQLObjectType "(string \<times> 's field) list"
  | GraphQLInputObjectType "(string \<times> gtype) list"

record 's schema =
  types :: "(string \<times> 's named_type) list"
  query_type :: string
  mutation_type :: "string option"

definition plain :: "gtype \<Rightarrow> 's field" where
  "plain t = \<lparr>ftype = t, args = [], resolve = None\<rparr>"

text \<open>The built-in scalars of the library and the imported \<open>UUIDType\<close>, by name.\<close>

definition GraphQLString :: gtype where "GraphQLString = GraphQLNamed ''String''"
definition GraphQLInt :: gtype where "GraphQLInt = GraphQLNamed ''Int''"
definition GraphQLFloat :: gtype where "GraphQLFloat = GraphQLNamed ''Float''"
definition GraphQLBoolean :: gtype where "GraphQLBoolean = GraphQLNamed ''Boolean''"
definition UUIDType :: gtype where "UUIDType = GraphQLNamed ''UUID''"

definition MemberTypeId :: "string \<times> 's named_type" where
  "MemberTypeId = (''MemberTypeId'', GraphQLEnumType [''BASIC'', ''BUSINESS''])"

definition MemberType :: "string \<times> 's named_type" where
  "MemberType = (''MemberType'', GraphQLObjectType
     [(''id'', plain (GraphQLNonNull (GraphQLNamed ''MemberTypeId''))),
      (''discount'', plain (GraphQLNonNull GraphQLFloat)),
      (''postsLimitPerMonth'', plain (GraphQLNonNull GraphQLInt))])"

definition Post :: "string \<times> 's named_type" where
  "Post = (''Post'', GraphQLObjectType
     [(''id'', plain (GraphQLNonNull UUIDType)),
      (''title'', plain (GraphQLNonNull GraphQLString)),
      (''content'', plain (GraphQLNonNull GraphQLString))])"

subsection \<open>Resolvers of \<open>Profile\<close> and \<open>User\<close>\<close>

definition where_arg :: "(string \<times> jsval) list \<Rightarrow> jsval" where
  "where_arg kvs = JObj [(''where'', JObj kvs)]"

definition first_or_null :: "'s prisma \<Rightarrow> model \<Rightarrow> (string \<times> jsval) list \<Rightarrow> 's \<Rightarrow> thrown + jsval" where
  "first_or_null pc m kvs s = map_sum id row_or_null (findFirst pc m (where_arg kvs) s)"

definition Profile_memberType :: "'s prisma \<Rightarrow> 's resolver" where
  "Profile_memberType pc = (\<lambda>profile _ s.
     (first_or_null pc M_memberType [(''id'', getprop profile ''memberTypeId'')] s, s))"

definition User_profile :: "'s prisma \<Rightarrow> 's resolver" where
  "User_profile pc = (\<lambda>user _ s.
     (first_or_null pc M_profile [(''userId'', getprop user ''id'')] s, s))"

definition User_posts :: "'s prisma \<Rightarrow> 's resolver" where
  "User_posts pc = (\<lambda>user _ s.
     (map_sum id rows (findMany pc M_post (where_arg [(''authorId'', getprop user ''id'')]) s), s))"

definition User_userSubscribedTo :: "'s prisma \<Rightarrow> 's resolver" where
  "User_userSubscribedTo pc = (\<lambda>user _ s.
     (case findMany pc M_subscribersOnAuthors (where_arg [(''subscriberId'', getprop user ''id'')]) s of
        Inl e \<Rightarrow> Inl e
      | Inr subscribes \<Rightarrow>
          map_sum id JList (Promise_all (first_rejection pc)
            (map (\<lambda>edge. first_or_null pc M_user [(''id'', getprop (JObj edge) ''authorId'')] s)
               subscribes)), s))"

definition User_subscribedToUser :: "'s prisma \<Rightarrow> 's resolver" where
  "User_subscribedToUser pc = (\<lambda>user _ s.
     (case findMany pc M_subscribersOnAuthors (where_arg [(''authorId'', getprop user ''id'')]) s of
        Inl e \<Rightarrow> Inl e
      | Inr subscribes \<Rightarrow>
          map_sum id JList (Promise_all (first_rejection pc)
            (map (\<lambda>edge. first_or_null pc M_user [(''id'', getprop (JObj edge) ''subscriberId'')] s)
               subscribes)), s))"

definition Profile :: "'s prisma \<Rightarrow> string \<times> 's named_type" where
  "Profile pc = (''Profile'', GraphQLObjectType
     [(''id'', plain (GraphQLNonNull UUIDType)),
      (''isMale'', plain (GraphQLNonNull GraphQLBoolean)),
      (''yearOfBirth'', plain (GraphQLNonNull GraphQLInt)),
      (''memberType'', \<lparr>ftype = GraphQLNonNull (GraphQLNamed ''MemberType''), args = [],
          resolve = Some (Profile_memberType pc)\<rparr>)])"

definition User :: "'s prisma \<Rightarrow> string \<times> 's named_type" where
  "User pc = (''User'', GraphQLObjectType
     [(''id'', plain (GraphQLNonNull UUIDType)),
      (''name'', plain (GraphQLNonNull GraphQLString)),
      (''balance'', plain (GraphQLNonNull GraphQLFloat)),
      (''profile'', \<lparr>ftype = GraphQLNamed ''Profile'', args = [],
          resolve = Some (User_profile pc)\<rparr>),
      (''posts'', \<lparr>ftype = GraphQLNonNull (GraphQLList (GraphQLNonNull (GraphQLNamed ''Post''))),
          args = [], resolve = Some (User_posts pc)\<rparr>),
      (''userSubscribedTo'',
        \<lparr>ftype = GraphQLNonNull (GraphQLList (GraphQLNonNull (GraphQLNamed ''User''))),
          args = [], resolve = Some (User_userSubscribedTo pc)\<rparr>),
      (''subscribedToUser'',
        \<lparr>ftype = GraphQLNonNull (GraphQLList (GraphQLNonNull (GraphQLNamed ''User''))),
          args = [], resolve = Some (User_subscribedToUser pc)\<rparr>)])"

subsection \<open>The query root\<close>

text \<open>The collection fields call \<open>findMany()\<close> with no argument; the lookups by id wrap
  the call in \<open>try\<close>/\<open>catch\<close> and rethrow under a prefix naming the entity.\<close>

definition find_all :: "'s prisma \<Rightarrow> model \<Rightarrow> 's resolver" where
  "find_all pc m = (\<lambda>_ _ s. (map_sum id rows (findMany pc m JUndefined s), s))"

definition find_by_id :: "'s prisma \<Rightarrow> model \<Rightarrow> string \<Rightarrow> 's resolver" where
  "find_by_id pc m entity = (\<lambda>_ as s.
     (case first_or_null pc m [(''id'', arg as ''id'')] s of
        Inr r \<Rightarrow> Inr r
      | Inl (ErrorObj msg) \<Rightarrow> Inl (ErrorObj (''Error fetching '' @ entity @ '': '' @ msg))
      | Inl NonError \<Rightarrow> Inl (ErrorObj (''Unknown error fetching '' @ entity)), s))"

definition list_of :: "string \<Rightarrow> gtype" where
  "list_of n = GraphQLNonNull (GraphQLList (GraphQLNonNull (GraphQLNamed n)))"

definition RootQueryType :: "'s prisma \<Rightarrow> string \<times> 's named_type" where
  "RootQueryType pc = (''RootQueryType'', GraphQLObjectType
     [(''memberTypes'', \<lparr>ftype = list_of ''MemberType'', args = [],
          resolve = Some (find_all pc M_memberType)\<rparr>),
      (''memberType'', \<lparr>ftype = GraphQLNamed ''MemberType'',
          args = [(''id'', GraphQLNonNull (GraphQLNamed ''MemberTypeId''))],
          resolve = Some (find_by_id pc M_memberType ''memberType'')\<rparr>),
      (''users'', \<lparr>ftype = list_of ''User'', args = [],
          resolve = Some (find_all pc M_user)\<rparr>),
      (''user'', \<lparr>ftype = GraphQLNamed ''User'',
          args = [(''id'', GraphQLNonNull UUIDType)],
          resolve = Some (find_by_id pc M_user ''user'')\<rparr>),
      (''posts'', \<lparr>ftype = list_of ''Post'', args = [],
          resolve = Some (find_all pc M_post)\<rparr>),
      (''post'', \<lparr>ftype = GraphQLNamed ''Post'',
          args = [(''id'', GraphQLNonNull UUIDType)],
          resolve = Some (find_by_id pc M_post ''post'')\<rparr>),
      (''profiles'', \<lparr>ftype = list_of ''Profile'', args = [],
          resolve = Some (find_all pc M_profile)\<rparr>),
      (''profile'', \<lparr>ftype = GraphQLNamed ''Profile'',
          args = [(''id'', GraphQLNonNull UUIDType)],
          resolve = Some (find_by_id pc M_profile ''profile'')\<rparr>)])"

subsection \<open>Input types and the mutation root\<close>

definition ChangePostInput :: "string \<times> 's named_type" where
  "ChangePostInput = (''ChangePostInput'', GraphQLInputObjectType
     [(''title'', GraphQLString), (''content'', GraphQLString)])"

definition ChangeProfileInput :: "string \<times> 's named_type" where
  "ChangeProfileInput = (''ChangeProfileInput'', GraphQLInputObjectType
     [(''isMale'', GraphQLBoolean), (''yearOfBirth'', GraphQLInt),
      (''memberTypeId'', GraphQLNamed ''MemberTypeId'')])"

definition ChangeUserInput :: "string \<times> 's named_type" where
  "ChangeUserInput = (''ChangeUserInput'', GraphQLInputObjectType
     [(''name'', GraphQLString), (''balance'', GraphQLFloat)])"

definition CreatePostInput :: "string \<times> 's named_type" where
  "CreatePostInput = (''CreatePostInput'', GraphQLInputObjectType
     [(''title'', GraphQLNonNull GraphQLString), (''content'', GraphQLNonNull GraphQLString),
      (''authorId'', GraphQLNonNull UUIDType)])"

definition CreateProfileInput :: "string \<times> 's named_type" where
  "CreateProfileInput = (''CreateProfileInput'', GraphQLInputObjectType
     [(''isMale'', GraphQLNonNull GraphQLBoolean), (''yearOfBirth'', GraphQLNonNull GraphQLInt),
      (''memberTypeId'', GraphQLNonNull (GraphQLNamed ''MemberTypeId'')),
      (''userId'', GraphQLNonNull UUIDType)])"

definition CreateUserInput :: "string \<times> 's named_type" where
  "CreateUserInput = (''CreateUserInput'', GraphQLInputObjectType
     [(''name'', GraphQLNonNull GraphQLString), (''balance'', GraphQLNonNull GraphQLFloat)])"

text \<open>
  Every mutation resolver has the same shape: the repository call inside \<open>try\<close>, and a
  \<open>catch\<close> that throws a new \<open>Error\<close> whose message is a fixed prefix followed by
  the caught error's message. The create and change resolvers return the row; the
  delete and subscription resolvers discard it and return a fixed string.
\<close>

definition rethrow :: "string \<Rightarrow> (thrown + jsval) \<times> 's \<Rightarrow> (thrown + jsval) \<times> 's" where
  "rethrow pfx r = (case r of
      (Inl error, s) \<Rightarrow> (Inl (ErrorObj (pfx @ error_message error)), s)
    | (Inr v, s) \<Rightarrow> (Inr v, s))"

definition returning_row :: "(thrown + row) \<times> 's \<Rightarrow> (thrown + jsval) \<times> 's" where
  "returning_row r = (case r of (x, s) \<Rightarrow> (map_sum id JObj x, s))"

definition returning :: "string \<Rightarrow> (thrown + row) \<times> 's \<Rightarrow> (thrown + jsval) \<times> 's" where
  "returning text r = (case r of (x, s) \<Rightarrow> (map_sum id (\<lambda>_. JStr text) x, s))"

definition create_entity :: "'s prisma \<Rightarrow> model \<Rightarrow> string \<Rightarrow> 's resolver" where
  "create_entity pc m entity = (\<lambda>_ as s.
     rethrow (''Failed to create '' @ entity @ '': '')
       (returning_row (create pc m (JObj [(''data'', arg as ''dto'')]) s)))"

definition change_entity :: "'s prisma \<Rightarrow> model \<Rightarrow> string \<Rightarrow> 's resolver" where
  "change_entity pc m entity = (\<lambda>_ as s.
     rethrow (''Failed to update '' @ entity @ '': '')
       (returning_row (update pc m
          (JObj [(''where'', JObj [(''id'', arg as ''id'')]), (''data'', arg as ''dto'')]) s)))"

definition delete_entity :: "'s prisma \<Rightarrow> model \<Rightarrow> string \<Rightarrow> string \<Rightarrow> 's resolver" where
  "delete_entity pc m entity done_text = (\<lambda>_ as s.
     rethrow (''Failed to delete '' @ entity @ '': '')
       (returning done_text (delete pc m (where_arg [(''id'', arg as ''id'')]) s)))"

definition subscribeTo :: "'s prisma \<Rightarrow> 's resolver" where
  "subscribeTo pc = (\<lambda>_ as s.
     rethrow ''Failed to subscribe: ''
       (returning ''Subscribed'' (create pc M_subscribersOnAuthors
          (JObj [(''data'', JObj [(''subscriberId'', arg as ''userId''),
                                  (''authorId'', arg as ''authorId'')])]) s)))"

definition unsubscribeFrom :: "'s prisma \<Rightarrow> 's resolver" where
  "unsubscribeFrom pc = (\<lambda>_ as s.
     rethrow ''Failed to unsubscribe: ''
       (returning ''Unsubscribed'' (delete pc M_subscribersOnAuthors
          (where_arg [(''subscriberId_authorId'',
             JObj [(''subscriberId'', arg as ''userId''), (''authorId'', arg as ''authorId'')])]) s)))"

definition Mutations :: "'s prisma \<Rightarrow> string \<times> 's named_type" where
  "Mutations pc = (''Mutations'', GraphQLObjectType
     [(''createUser'', \<lparr>ftype = GraphQLNonNull (GraphQLNamed ''User''),
          args = [(''dto'', GraphQLNonNull (GraphQLNamed ''CreateUserInput''))],
          resolve = Some (create_entity pc M_user ''user'')\<rparr>),
      (''createProfile'', \<lparr>ftype = GraphQLNonNull (GraphQLNamed ''Profile''),
          args = [(''dto'', GraphQLNamed ''CreateProfileInput'')],
          resolve = Some (create_entity pc M_profile ''profile'')\<rparr>),
      (''createPost'', \<lparr>ftype = GraphQLNonNull (GraphQLNamed ''Post''),
          args = [(''dto'', GraphQLNonNull (GraphQLNamed ''CreatePostInput''))],
          resolve = Some (create_entity pc M_post ''post'')\<rparr>),
      (''changePost'', \<lparr>ftype = GraphQLNonNull (GraphQLNamed ''Post''),
          args = [(''id'', GraphQLNonNull UUIDType),
                  (''dto'', GraphQLNonNull (GraphQLNamed ''ChangePostInput''))],
          resolve = Some (change_entity pc M_post ''post'')\<rparr>),
      (''changeProfile'', \<lparr>ftype = GraphQLNonNull (GraphQLNamed ''Profile''),
          args = [(''id'', GraphQLNonNull UUIDType),
                  (''dto'', GraphQLNonNull (GraphQLNamed ''ChangeProfileInput''))],
          resolve = Some (change_entity pc M_profile ''profile'')\<rparr>),
      (''changeUser'', \<lparr>ftype = GraphQLNonNull (GraphQLNamed ''User''),
          args = [(''id'', GraphQLNonNull UUIDType),
                  (''dto'', GraphQLNonNull (GraphQLNamed ''ChangeUserInput''))],
          resolve = Some (change_entity pc M_user ''user'')\<rparr>),
      (''deleteUser'', \<lparr>ftype = GraphQLNonNull GraphQLString,
          args = [(''id'', GraphQLNonNull UUIDType)],
          resolve = Some (delete_entity pc M_user ''user'' ''User deleted'')\<rparr>),
      (''deletePost'', \<lparr>ftype = GraphQLNonNull GraphQLString,
          args = [(''id'', GraphQLNonNull UUIDType)],
          resolve = Some (delete_entity pc M_post ''post'' ''Post deleted'')\<rparr>),
      (''deleteProfile'', \<lparr>ftype = GraphQLNonNull GraphQLString,
          args = [(''id'', GraphQLNonNull UUIDType)],
          resolve = Some (delete_entity pc M_profile ''profile'' ''Profile deleted'')\<rparr>),
      (''subscribeTo'', \<lparr>ftype = GraphQLNonNull GraphQLString,
          args = [(''userId'', GraphQLNonNull UUIDType), (''authorId'', GraphQLNonNull UUIDType)],
          resolve = Some (subscribeTo pc)\<rparr>),
      (''unsubscribeFrom'', \<lparr>ftype = GraphQLNonNull GraphQLString,
          args = [(''userId'', GraphQLNonNull UUIDType), (''authorId'', GraphQLNonNull UUIDType)],
          resolve = Some (unsubscribeFrom pc)\<rparr>)])"

text \<open>
  \<open>createGraphQLSchema(prisma)\<close> with the mutation root. The scalar types the file
  imports (\<open>GraphQLString\<close>, \<open>GraphQLInt\<close>, \<open>GraphQLFloat\<close>, \<open>GraphQLBoolean\<close>
  from the library and \<open>UUIDType\<close> from \<open>./types/uuid.js\<close>) are declared elsewhere:
  their table is a parameter.
\<close>

definition createGraphQLSchema :: "(string \<times> 's named_type) list \<Rightarrow> 's prisma \<Rightarrow> 's schema" where
  "createGraphQLSchema scalars pc =
     \<lparr>types = [MemberTypeId, MemberType, Post, Profile pc, User pc, RootQueryType pc,
               ChangePostInput, ChangeProfileInput, ChangeUserInput,
               CreatePostInput, CreateProfileInput, CreateUserInput, Mutations pc] @ scalars,
      query_type = ''RootQueryType'',
      mutation_type = Some ''Mutations''\<rparr>"

text \<open>The second variant of the file declares the same types and query root and no
  mutation root.\<close>

definition createGraphQLSchema_query_only ::
  "(string \<times> 's named_type) list \<Rightarrow> 's prisma \<Rightarrow> 's schema" where
  "createGraphQLSchema_query_only scalars pc =
     \<lparr>types = [MemberTypeId, MemberType, Post, Profile pc, User pc, RootQueryType pc] @ scalars,
      query_type = ''RootQueryType'',
      mutation_type = None\<rparr>"

definition type_of :: "'s schema \<Rightarrow> string \<Rightarrow> 's named_type option" where
  "type_of sch n = map_of (types sch) n"

definition fields_of :: "'s schema \<Rightarrow> string \<Rightarrow> (string \<times> 's field) list" where
  "fields_of sch n = (case type_of sch n of Some (GraphQLObjectType fs) \<Rightarrow> fs | _ \<Rightarrow> [])"

definition field_of :: "'s schema \<Rightarrow> string \<Rightarrow> string \<Rightarrow> 's field option" where
  "field_of sch n f = map_of (fields_of sch n) f"

section \<open>Documents, requests and responses\<close>

text \<open>
  The parsed document, as the data model describes a selection node: a field name, an
  alias, the arguments supplied (a literal value or a reference to a request variable)
  and the child selection set. A document is one operation on the query root or on the
  mutation root.
\<close>

datatype argval = Lit jsval | Var string

datatype selection =
  FieldNode "string option" string "(string \<times> argval) list" "selection list"

datatype operation = OpQuery | OpMutation

record document =
  operation :: operation
  selections :: "selection list"

datatype seg = Key string | Index nat

datatype error_kind = SyntaxError | ValidationError | ResolutionError

record gql_error =
  kind :: error_kind
  message :: string
  path :: "seg list"

text \<open>The request body \<open>{ query, variables? }\<close> and the response
  \<open>{ data?, errors? }\<close>: \<open>data = None\<close> is a response without the key, and an empty
  error list is a response without errors.\<close>

record request =
  query :: string
  variables :: "(string \<times> jsval) list option"

record response =
  data :: "jsval option"
  errors :: "gql_error list"

section \<open>The route handlers: \<open>index.ts\<close>\<close>

text \<open>
  The two variants of the handler call four functions of the \<open>graphql\<close> and
  \<open>graphql-depth-limit\<close> packages. They are taken as a record, so that what is proved
  of a handler for every such record holds whatever the packages do. A validation rule
  maps the schema and the document to the errors it reports. The schema is the one the
  plugin builds once, \<open>createGraphQLSchema(prisma)\<close>.
\<close>

type_synonym 's rule = "'s schema \<Rightarrow> document \<Rightarrow> gql_error list"

record 's packages =
  parse :: "string \<Rightarrow> thrown + document"
  validate :: "'s schema \<Rightarrow> document \<Rightarrow> 's rule list \<Rightarrow> gql_error list"
  depthLimit :: "nat \<Rightarrow> 's rule"
  graphql :: "'s schema \<Rightarrow> string \<Rightarrow> (string \<times> jsval) list option \<Rightarrow> 's \<Rightarrow> response \<times> 's"

definition limit :: nat where
  "limit = 5"

text \<open>The handler that calls the executor directly. The result is what the route
  replies with (\<open>Inr\<close>), or the exception that leaves the handler (\<open>Inl\<close>).\<close>

definition handler :: "'s packages \<Rightarrow> 's schema \<Rightarrow> request \<Rightarrow> 's \<Rightarrow> (thrown + response) \<times> 's" where
  "handler lib sch req s =
     (case graphql lib sch (query req) (variables req) s of (r, s') \<Rightarrow> (Inr r, s'))"

text \<open>The handler with the depth rule: \<open>parse\<close> throws on a document it cannot read,
  and nothing in the handler catches it.\<close>

definition handler_depthLimit ::
  "'s packages \<Rightarrow> 's schema \<Rightarrow> request \<Rightarrow> 's \<Rightarrow> (thrown + response) \<times> 's" where
  "handler_depthLimit lib sch req s =
     (case parse lib (query req) of
        Inl e \<Rightarrow> (Inl e, s)
      | Inr doc \<Rightarrow>
          (let errs = validate lib sch doc [depthLimit lib limit] in
           if length errs \<noteq> 0 then (Inr \<lparr>data = None, errors = errs\<rparr>, s)
           else (case graphql lib sch (query req) (variables req) s of (r, s') \<Rightarrow> (Inr r, s'))))"

section \<open>Validation and execution\<close>

text \<open>Modelled from the spec: the validation pipeline and the execution engine are the
  \<open>graphql\<close> and \<open>graphql-depth-limit\<close> packages, which are not part of the source
  files. Everything in this section follows sections 3, 4.3 and 4.4 of the
  specification. An absent value is \<open>null\<close> or \<open>undefined\<close>.\<close>

definition absent :: "jsval \<Rightarrow> bool" where
  "absent v = (v = JNull \<or> v = JUndefined)"

text \<open>Modelled from the spec: an argument or field is required when its declared type
  is a non-null wrapper (the schema declares no default values).\<close>

fun required :: "gtype \<Rightarrow> bool" where
  "required (GraphQLNonNull t) = True"
| "required t = False"

text \<open>Modelled from the spec: "argument types match". A value fits a non-null type when
  it is present and fits the inner type; a list type when it is absent or an array of
  fitting values; a scalar by the scalar's own check; an enum when it is one of the
  enum's values; an input object when it is an object each of whose declared fields
  fits (a missing field reads as \<open>undefined\<close>).\<close>

function valid_value :: "'s schema \<Rightarrow> gtype \<Rightarrow> jsval \<Rightarrow> bool" where
  "valid_value sch (GraphQLNonNull t) v = (\<not> absent v \<and> valid_value sch t v)"
| "valid_value sch (GraphQLList t) v =
     (absent v \<or> (case v of JList vs \<Rightarrow> list_all (valid_value sch t) vs | _ \<Rightarrow> False))"
| "valid_value sch (GraphQLNamed n) v =
     (absent v \<or> (case type_of sch n of
        Some (GraphQLScalarType ok) \<Rightarrow> ok v
      | Some (GraphQLEnumType vals) \<Rightarrow> (case v of JStr x \<Rightarrow> x \<in> set vals | _ \<Rightarrow> False)
      | Some (GraphQLInputObjectType fs) \<Rightarrow>
          (case v of
             JObj kvs \<Rightarrow> list_all (\<lambda>(k, t). valid_value sch t (getprop (JObj kvs) k)) fs
           | _ \<Rightarrow> False)
      | _ \<Rightarrow> False))"
  by pat_completeness auto
termination
proof (relation "inv_image (less_than <*lex*> less_than) (\<lambda>(sch, t, v). (size v, size t))")
  show "wf (inv_image (less_than <*lex*> less_than) (\<lambda>(sch :: 's schema, t, v). (size v, size t)))"
    by (intro wf_inv_image wf_lex_prod wf_less_than)
next
  fix sch :: "'s schema" and t v
  show "((sch, t, v), (sch, GraphQLNonNull t, v))
      \<in> inv_image (less_than <*lex*> less_than) (\<lambda>(sch, t, v). (size v, size t))"
    by simp
next
  fix sch :: "'s schema" and t v vs x
  assume "v = JList vs" "x \<in> set vs"
  then show "((sch, t, x), (sch, GraphQLList t, v))
      \<in> inv_image (less_than <*lex*> less_than) (\<lambda>(sch, t, v). (size v, size t))"
    by (simp add: less_Suc_eq_le size_list_estimation')
next
  fix sch :: "'s schema" and n v x2 fs kvs kt k t
  assume "v = JObj kvs"
  have "size (getprop (JObj kvs) k) < size (JObj kvs)"
  proof (cases "map_of kvs k")
    case None
    then show ?thesis by (simp add: getprop_def)
  next
    case (Some x)
    then have "(k, x) \<in> set kvs" by (rule map_of_SomeD)
    then have "size_prod (\<lambda>_. 0) size (k, x) \<le> size_list (size_prod (\<lambda>_. 0) size) kvs"
      by (simp add: size_list_estimation')
    with Some show ?thesis by (simp add: getprop_def)
  qed
  with \<open>v = JObj kvs\<close> show "((sch, t, getprop (JObj kvs) k), (sch, GraphQLNamed n, v))
      \<in> inv_image (less_than <*lex*> less_than) (\<lambda>(sch, t, v). (size v, size t))"
    by simp
qed

text \<open>Modelled from the spec: a ValidationError is not attached to a field, so it has
  no path.\<close>

definition verr :: "string \<Rightarrow> gql_error" where
  "verr m = \<lparr>kind = ValidationError, message = m, path = []\<rparr>"

text \<open>Modelled from the spec: "required arguments present" and "argument types
  match", for the arguments a field declares. The value of a variable is not known
  when the document is validated.\<close>

definition check_args ::
  "'s schema \<Rightarrow> (string \<times> gtype) list \<Rightarrow> (string \<times> argval) list \<Rightarrow> gql_error list" where
  "check_args sch declared supplied = concat (map (\<lambda>(a, t).
      case map_of supplied a of
        None \<Rightarrow> if required t then [verr (''Argument '' @ a @ '' is required, but it was not provided'')] else []
      | Some (Var x) \<Rightarrow> []
      | Some (Lit v) \<Rightarrow> if valid_value sch t v then [] else [verr (''Argument '' @ a @ '' has a value of the wrong type'')])
    declared)"

text \<open>Modelled from the spec: the named type under the list and non-null wrappers.\<close>

fun base_name :: "gtype \<Rightarrow> string" where
  "base_name (GraphQLNamed n) = n"
| "base_name (GraphQLList t) = base_name t"
| "base_name (GraphQLNonNull t) = base_name t"

text \<open>Modelled from the spec: whether a name is registered as an object type.\<close>

definition is_object :: "'s schema \<Rightarrow> string \<Rightarrow> bool" where
  "is_object sch n = (case type_of sch n of Some (GraphQLObjectType fs) \<Rightarrow> True | _ \<Rightarrow> False)"

text \<open>Modelled from the spec: the structural checks on a selection node. The field
  exists on its parent type, its arguments are checked, and its child selection set is
  "empty for scalar/enum fields, required and non-empty for object fields".\<close>

fun validate_selection :: "'s schema \<Rightarrow> string \<Rightarrow> selection \<Rightarrow> gql_error list" where
  "validate_selection sch T (FieldNode al f as sels) =
     (case field_of sch T f of
        None \<Rightarrow> [verr (''Cannot query field '' @ f @ '' on type '' @ T)]
      | Some fd \<Rightarrow>
          check_args sch (args fd) as @
          (if is_object sch (base_name (ftype fd)) then
             (if sels = [] then [verr (''Field '' @ f @ '' must have a selection of subfields'')]
              else concat (map (validate_selection sch (base_name (ftype fd))) sels))
           else
             (if sels = [] then [] else [verr (''Field '' @ f @ '' must not have a selection'')])))"

text \<open>Modelled from the spec: the root type an operation starts from.\<close>

definition root_type :: "'s schema \<Rightarrow> document \<Rightarrow> string option" where
  "root_type sch doc =
     (case operation doc of OpQuery \<Rightarrow> Some (query_type sch) | OpMutation \<Rightarrow> mutation_type sch)"

text \<open>Modelled from the spec: the structural validation of a whole document.\<close>

definition structure_rule :: "'s rule" where
  "structure_rule sch doc =
     (case root_type sch doc of
        None \<Rightarrow> [verr ''Schema is not configured for mutations'']
      | Some T \<Rightarrow> concat (map (validate_selection sch T) (selections doc)))"

text \<open>Modelled from the spec: the rules of the structural pass the executor pipeline
  runs by itself.\<close>

definition specifiedRules :: "'s rule list" where
  "specifiedRules = [structure_rule]"

text \<open>Modelled from the spec: the largest of a list of depths.\<close>

fun max_list :: "nat list \<Rightarrow> nat" where
  "max_list [] = 0"
| "max_list (x # xs) = max x (max_list xs)"

text \<open>Modelled from the spec: "the maximum nesting depth of the selection tree". The
  convention chosen is that a field without a selection set has depth 0, so the fields
  selected on the root are at depth 0.\<close>

fun depth :: "selection \<Rightarrow> nat" where
  "depth (FieldNode al f as sels) = (if sels = [] then 0 else Suc (max_list (map depth sels)))"

text \<open>Modelled from the spec: the depth of a document is that of its deepest
  top-level selection.\<close>

definition document_depth :: "document \<Rightarrow> nat" where
  "document_depth doc = max_list (map depth (selections doc))"

text \<open>Modelled from the spec: the depth validator "fails the whole operation with a
  single aggregated ValidationError ... if the computed depth exceeds D".\<close>

definition depth_rule :: "nat \<Rightarrow> 's rule" where
  "depth_rule D sch doc =
     (if D < document_depth doc then [verr ''The operation exceeds the maximum depth''] else [])"

text \<open>Modelled from the spec: \<open>validate\<close> runs the rules it is given on the document
  and collects their errors.\<close>

definition run_rules :: "'s schema \<Rightarrow> document \<Rightarrow> 's rule list \<Rightarrow> gql_error list" where
  "run_rules sch doc rules = concat (map (\<lambda>r. r sch doc) rules)"

text \<open>Modelled from the spec: a field-level error carries the path of its field.\<close>

definition ferr :: "seg list \<Rightarrow> string \<Rightarrow> gql_error" where
  "ferr p m = \<lparr>kind = ResolutionError, message = m, path = p\<rparr>"

text \<open>Modelled from the spec: the message of a field error. A thrown \<open>Error\<close> has its
  message attached; any other thrown value gets a generic text.\<close>

fun thrown_message :: "thrown \<Rightarrow> string" where
  "thrown_message (ErrorObj m) = m"
| "thrown_message NonError = ''Unexpected error value''"

text \<open>Modelled from the spec: the value of a request variable (\<open>undefined\<close> when the
  request has none of that name).\<close>

definition variable :: "(string \<times> jsval) list option \<Rightarrow> string \<Rightarrow> jsval" where
  "variable vars x = (case vars of None \<Rightarrow> JUndefined | Some vs \<Rightarrow> arg vs x)"

text \<open>Modelled from the spec: the value of a supplied argument.\<close>

definition eval_arg :: "(string \<times> jsval) list option \<Rightarrow> argval \<Rightarrow> jsval" where
  "eval_arg vars av = (case av of Lit v \<Rightarrow> v | Var x \<Rightarrow> variable vars x)"

text \<open>Modelled from the spec: step 2 of the execution algorithm, "evaluate declared
  arguments ... fail with MissingArgument/ArgumentTypeMismatch if invalid". The
  argument object holds the arguments that were supplied.\<close>

fun coerce_args ::
  "'s schema \<Rightarrow> (string \<times> jsval) list option \<Rightarrow> (string \<times> gtype) list \<Rightarrow> (string \<times> argval) list
    \<Rightarrow> string + (string \<times> jsval) list" where
  "coerce_args sch vars [] supplied = Inr []"
| "coerce_args sch vars ((a, t) # declared) supplied =
     (let v = (case map_of supplied a of None \<Rightarrow> JUndefined | Some av \<Rightarrow> eval_arg vars av) in
      if absent v \<and> required t then Inl (''MissingArgument: '' @ a)
      else if \<not> valid_value sch t v then Inl (''ArgumentTypeMismatch: '' @ a)
      else (case coerce_args sch vars declared supplied of
              Inl m \<Rightarrow> Inl m
            | Inr rest \<Rightarrow> Inr (if v = JUndefined then rest else (a, v) # rest)))"

text \<open>Modelled from the spec: step 6, "the output key for a field is its alias if
  given, else its field name".\<close>

definition out_key :: "string option \<Rightarrow> string \<Rightarrow> string" where
  "out_key al f = (case al of None \<Rightarrow> f | Some a \<Rightarrow> a)"

text \<open>Modelled from the spec: the output key of a selection node.\<close>

fun key_of :: "selection \<Rightarrow> string" where
  "key_of (FieldNode al f as sels) = out_key al f"

text \<open>Modelled from the spec: the resolver bound to a field; "default resolver reads a
  same-named property off the parent value when none is declared explicitly".\<close>

definition invoke :: "'s field \<Rightarrow> string \<Rightarrow> 's resolver" where
  "invoke fd f = (case resolve fd of
      Some r \<Rightarrow> r
    | None \<Rightarrow> (\<lambda>parent _ s. (Inr (getprop parent f), s)))"

text \<open>Modelled from the spec: step 3. A failed field of nullable type is \<open>null\<close>; a
  failed field of non-null type has no value (\<open>None\<close>), which its parent passes on
  until an ancestor of nullable type becomes \<open>null\<close>.\<close>

definition failed :: "gtype \<Rightarrow> jsval option" where
  "failed t = (if required t then None else Some JNull)"

text \<open>Modelled from the spec: the execution algorithm, steps 2 to 5 and 7. Each
  function returns the value (\<open>None\<close> when a non-null violation is passing upwards),
  the field errors in the order they occurred, and the store. Sibling fields and list
  elements are run in document order, one deterministic order among those the
  algorithm allows.
  \<^item> \<open>exec_field\<close>: evaluate the arguments, invoke the resolver, record an error if it
    fails, complete the value otherwise.
  \<^item> \<open>exec_fields\<close>: a selection set on an object; a field without a value leaves the
    object without a value.
  \<^item> \<open>complete_value\<close>: an absent value is an error for a non-null type and \<open>null\<close>
    otherwise; a nullable type turns a violation from below into \<open>null\<close>.
  \<^item> \<open>complete_present\<close>: a present value is completed by its type: list elements one
    by one, an object by its child selection set, a scalar or enum as it is.
  \<^item> \<open>complete_items\<close>: the elements of a list, each with its index on the path.\<close>

function exec_field ::
    "'s schema \<Rightarrow> (string \<times> jsval) list option \<Rightarrow> string \<Rightarrow> jsval \<Rightarrow> selection \<Rightarrow> seg list \<Rightarrow> 's
      \<Rightarrow> jsval option \<times> gql_error list \<times> 's"
  and exec_fields ::
    "'s schema \<Rightarrow> (string \<times> jsval) list option \<Rightarrow> string \<Rightarrow> jsval \<Rightarrow> selection list \<Rightarrow> seg list \<Rightarrow> 's
      \<Rightarrow> (string \<times> jsval) list option \<times> gql_error list \<times> 's"
  and complete_value ::
    "'s schema \<Rightarrow> (string \<times> jsval) list option \<Rightarrow> gtype \<Rightarrow> jsval \<Rightarrow> selection list \<Rightarrow> seg list \<Rightarrow> 's
      \<Rightarrow> jsval option \<times> gql_error list \<times> 's"
  and complete_present ::
    "'s schema \<Rightarrow> (string \<times> jsval) list option \<Rightarrow> gtype \<Rightarrow> jsval \<Rightarrow> selection list \<Rightarrow> seg list \<Rightarrow> 's
      \<Rightarrow> jsval option \<times> gql_error list \<times> 's"
  and complete_items ::
    "'s schema \<Rightarrow> (string \<times> jsval) list option \<Rightarrow> gtype \<Rightarrow> jsval list \<Rightarrow> nat \<Rightarrow> selection list \<Rightarrow> seg list \<Rightarrow> 's
      \<Rightarrow> jsval list option \<times> gql_error list \<times> 's"
where
  "exec_field sch vars T parent (FieldNode al f as sels) p s =
     (case field_of sch T f of
        None \<Rightarrow>
          (Some JNull, [ferr (p @ [Key (key_of (FieldNode al f as sels))])
                          (''Cannot query field '' @ f @ '' on type '' @ T)], s)
      | Some fd \<Rightarrow>
          (case coerce_args sch vars (args fd) as of
             Inl m \<Rightarrow> (failed (ftype fd), [ferr (p @ [Key (key_of (FieldNode al f as sels))]) m], s)
           | Inr avs \<Rightarrow>
               (case invoke fd f parent avs s of
                  (Inl e, s1) \<Rightarrow>
                    (failed (ftype fd),
                     [ferr (p @ [Key (key_of (FieldNode al f as sels))]) (thrown_message e)], s1)
                | (Inr v, s1) \<Rightarrow>
                    complete_value sch vars (ftype fd) v sels
                      (p @ [Key (key_of (FieldNode al f as sels))]) s1)))"
| "exec_fields sch vars T parent [] p s = (Some [], [], s)"
| "exec_fields sch vars T parent (sel # sels) p s =
     (case exec_field sch vars T parent sel p s of
        (r, es, s1) \<Rightarrow>
          (case exec_fields sch vars T parent sels p s1 of
             (rs, es', s2) \<Rightarrow>
               ((case (r, rs) of
                   (Some x, Some xs) \<Rightarrow> Some ((key_of sel, x) # xs)
                 | _ \<Rightarrow> None), es @ es', s2)))"
| "complete_value sch vars t v sels p s =
     (case t of
        GraphQLNonNull t' \<Rightarrow>
          if absent v then (None, [ferr p ''Cannot return null for non-nullable field''], s)
          else complete_present sch vars t' v sels p s
      | _ \<Rightarrow>
          if absent v then (Some JNull, [], s)
          else (case complete_present sch vars t v sels p s of
                  (None, es, s1) \<Rightarrow> (Some JNull, es, s1)
                | (Some x, es, s1) \<Rightarrow> (Some x, es, s1)))"
| "complete_present sch vars (GraphQLNonNull t) v sels p s = complete_present sch vars t v sels p s"
| "complete_present sch vars (GraphQLList t) v sels p s =
     (case v of
        JList vs \<Rightarrow>
          (case complete_items sch vars t vs 0 sels p s of
             (None, es, s1) \<Rightarrow> (None, es, s1)
           | (Some xs, es, s1) \<Rightarrow> (Some (JList xs), es, s1))
      | _ \<Rightarrow> (None, [ferr p ''Expected a list''], s))"
| "complete_present sch vars (GraphQLNamed n) v sels p s =
     (if is_object sch n then
        (case exec_fields sch vars n v sels p s of
           (None, es, s1) \<Rightarrow> (None, es, s1)
         | (Some kvs, es, s1) \<Rightarrow> (Some (JObj kvs), es, s1))
      else (Some v, [], s))"
| "complete_items sch vars t [] i sels p s = (Some [], [], s)"
| "complete_items sch vars t (v # vs) i sels p s =
     (case complete_value sch vars t v sels (p @ [Index i]) s of
        (r, es, s1) \<Rightarrow>
          (case complete_items sch vars t vs (Suc i) sels p s1 of
             (rs, es', s2) \<Rightarrow>
               ((case (r, rs) of
                   (Some x, Some xs) \<Rightarrow> Some (x # xs)
                 | _ \<Rightarrow> None), es @ es', s2)))"
  by pat_completeness auto
termination
  by (relation "measures
       [\<lambda>x. case x of
           Inl (Inl (sch, vars, T, parent, sel, p, s)) \<Rightarrow> size sel
         | Inl (Inr (sch, vars, T, parent, sels, p, s)) \<Rightarrow> size_list size sels
         | Inr (Inl (sch, vars, t, v, sels, p, s)) \<Rightarrow> size_list size sels
         | Inr (Inr (Inl (sch, vars, t, v, sels, p, s))) \<Rightarrow> size_list size sels
         | Inr (Inr (Inr (sch, vars, t, vs, i, sels, p, s))) \<Rightarrow> size_list size sels,
        \<lambda>x. case x of
           Inl (Inl (sch, vars, T, parent, sel, p, s)) \<Rightarrow> 0
         | Inl (Inr (sch, vars, T, parent, sels, p, s)) \<Rightarrow> 0
         | Inr (Inl (sch, vars, t, v, sels, p, s)) \<Rightarrow> Suc (size t)
         | Inr (Inr (Inl (sch, vars, t, v, sels, p, s))) \<Rightarrow> Suc (size t)
         | Inr (Inr (Inr (sch, vars, t, vs, i, sels, p, s))) \<Rightarrow> Suc (size t),
        \<lambda>x. case x of
           Inl (Inl (sch, vars, T, parent, sel, p, s)) \<Rightarrow> 0
         | Inl (Inr (sch, vars, T, parent, sels, p, s)) \<Rightarrow> 0
         | Inr (Inl (sch, vars, t, v, sels, p, s)) \<Rightarrow> 1
         | Inr (Inr (Inl (sch, vars, t, v, sels, p, s))) \<Rightarrow> 0
         | Inr (Inr (Inr (sch, vars, t, vs, i, sels, p, s))) \<Rightarrow> 2 + length vs]")
    auto

text \<open>Modelled from the spec: the execution of a validated document from its root type.
  When a non-null violation reaches the root, "the whole data payload becomes
  \<open>null\<close> while errors are still reported".\<close>

definition execute ::
  "'s schema \<Rightarrow> document \<Rightarrow> (string \<times> jsval) list option \<Rightarrow> 's \<Rightarrow> response \<times> 's" where
  "execute sch doc vars s =
     (case root_type sch doc of
        None \<Rightarrow> (\<lparr>data = None, errors = [verr ''Schema is not configured for mutations'']\<rparr>, s)
      | Some T \<Rightarrow>
          (case exec_fields sch vars T JUndefined (selections doc) [] s of
             (r, es, s') \<Rightarrow>
               (\<lparr>data = Some (case r of None \<Rightarrow> JNull | Some kvs \<Rightarrow> JObj kvs), errors = es\<rparr>, s')))"

text \<open>Modelled from the spec: the control flow of \<open>graphql(...)\<close>, "incoming document,
  parse, structural validation, execution engine". A document that cannot be parsed or
  that fails validation is answered with the errors alone. The parser and the executor
  are parameters.\<close>

definition graphql_pipeline ::
  "(string \<Rightarrow> thrown + document)
    \<Rightarrow> ('s schema \<Rightarrow> document \<Rightarrow> (string \<times> jsval) list option \<Rightarrow> 's \<Rightarrow> response \<times> 's)
    \<Rightarrow> 's schema \<Rightarrow> string \<Rightarrow> (string \<times> jsval) list option \<Rightarrow> 's \<Rightarrow> response \<times> 's" where
  "graphql_pipeline parse_fn exec sch src vars s =
     (case parse_fn src of
        Inl e \<Rightarrow>
          (\<lparr>data = None,
            errors = [\<lparr>kind = SyntaxError, message = thrown_message e, path = []\<rparr>]\<rparr>, s)
      | Inr doc \<Rightarrow>
          (case run_rules sch doc specifiedRules of
             [] \<Rightarrow> exec sch doc vars s
           | e # es \<Rightarrow> (\<lparr>data = None, errors = e # es\<rparr>, s)))"

text \<open>Modelled from the spec: the four package functions the handlers call, over a given
  parser and executor, and with the executor of this section.\<close>

definition engine_with ::
  "(string \<Rightarrow> thrown + document)
    \<Rightarrow> ('s schema \<Rightarrow> document \<Rightarrow> (string \<times> jsval) list option \<Rightarrow> 's \<Rightarrow> response \<times> 's)
    \<Rightarrow> 's packages" where
  "engine_with parse_fn exec =
     \<lparr>parse = parse_fn, validate = run_rules, depthLimit = depth_rule,
      graphql = graphql_pipeline parse_fn exec\<rparr>"

definition engine :: "(string \<Rightarrow> thrown + document) \<Rightarrow> 's packages" where
  "engine parse_fn = engine_with parse_fn execute"

text \<open>
  Modelled from the spec: the null propagation of step 3, stated on its own as a
  relation, against which the engine is compared. A non-null violation starts at a
  field of non-null declared type whose resolver fails, or at a position of non-null
  type whose value is absent. From there it passes upwards through every enclosing
  position of non-null type: a field's value, the object whose selection set holds
  the field, the element of a list, the list. The relation follows that way on the
  inputs of the execution: the declared types, what the resolvers on the way return,
  and whatever the other fields and elements beside the way yield. It records the
  errors that occur before the failing field (\<open>b\<close>), the route from the position to the
  failing field (\<open>r\<close>), the message of its error (\<open>m\<close>), the errors that occur after
  it (\<open>a\<close>) and the store left. No rule passes a position of nullable type, so a
  violation that reaches the value of a field comes from a failing field with nothing
  but non-null positions in between.
\<close>

inductive violation_field ::
    "'s schema \<Rightarrow> (string \<times> jsval) list option \<Rightarrow> string \<Rightarrow> jsval \<Rightarrow> selection \<Rightarrow> seg list \<Rightarrow> 's
      \<Rightarrow> gql_error list \<Rightarrow> seg list \<Rightarrow> string \<Rightarrow> gql_error list \<Rightarrow> 's \<Rightarrow> bool"
  and violation_fields ::
    "'s schema \<Rightarrow> (string \<times> jsval) list option \<Rightarrow> string \<Rightarrow> jsval \<Rightarrow> selection list \<Rightarrow> seg list \<Rightarrow> 's
      \<Rightarrow> gql_error list \<Rightarrow> seg list \<Rightarrow> string \<Rightarrow> gql_error list \<Rightarrow> 's \<Rightarrow> bool"
  and violation_value ::
    "'s schema \<Rightarrow> (string \<times> jsval) list option \<Rightarrow> gtype \<Rightarrow> jsval \<Rightarrow> selection list \<Rightarrow> seg list \<Rightarrow> 's
      \<Rightarrow> gql_error list \<Rightarrow> seg list \<Rightarrow> string \<Rightarrow> gql_error list \<Rightarrow> 's \<Rightarrow> bool"
  and violation_present ::
    "'s schema \<Rightarrow> (string \<times> jsval) list option \<Rightarrow> gtype \<Rightarrow> jsval \<Rightarrow> selection list \<Rightarrow> seg list \<Rightarrow> 's
      \<Rightarrow> gql_error list \<Rightarrow> seg list \<Rightarrow> string \<Rightarrow> gql_error list \<Rightarrow> 's \<Rightarrow> bool"
  and violation_items ::
    "'s schema \<Rightarrow> (string \<times> jsval) list option \<Rightarrow> gtype \<Rightarrow> jsval list \<Rightarrow> nat \<Rightarrow> selection list \<Rightarrow> seg list \<Rightarrow> 's
      \<Rightarrow> gql_error list \<Rightarrow> seg list \<Rightarrow> string \<Rightarrow> gql_error list \<Rightarrow> 's \<Rightarrow> bool"
  for sch :: "'s schema" and vars :: "(string \<times> jsval) list option"
where
  resolver_fails:
    "\<lbrakk>field_of sch T f = Some fd; required (ftype fd);
      coerce_args sch vars (args fd) as = Inr avs;
      invoke fd f parent avs s = (Inl e, s')\<rbrakk>
     \<Longrightarrow> violation_field sch vars T parent (FieldNode al f as sels) p s
           [] [Key (out_key al f)] (thrown_message e) [] s'"
| below_field:
    "\<lbrakk>field_of sch T f = Some fd;
      coerce_args sch vars (args fd) as = Inr avs;
      invoke fd f parent avs s = (Inr v, s1);
      violation_value sch vars (ftype fd) v sels (p @ [Key (out_key al f)]) s1 b r m a s'\<rbrakk>
     \<Longrightarrow> violation_field sch vars T parent (FieldNode al f as sels) p s
           b (Key (out_key al f) # r) m a s'"
| among_fields:
    "\<lbrakk>exec_fields sch vars T parent pre p s = (x1, e1, s1);
      violation_field sch vars T parent sel p s1 b r m a s2;
      exec_fields sch vars T parent post p s2 = (x2, e2, s3)\<rbrakk>
     \<Longrightarrow> violation_fields sch vars T parent (pre @ sel # post) p s (e1 @ b) r m (a @ e2) s3"
| absent_value:
    "absent v
     \<Longrightarrow> violation_value sch vars (GraphQLNonNull t) v sels p s
           [] [] ''Cannot return null for non-nullable field'' [] s"
| below_non_null:
    "\<lbrakk>\<not> absent v; violation_present sch vars t v sels p s b r m a s'\<rbrakk>
     \<Longrightarrow> violation_value sch vars (GraphQLNonNull t) v sels p s b r m a s'"
| below_wrapper:
    "violation_present sch vars t v sels p s b r m a s'
     \<Longrightarrow> violation_present sch vars (GraphQLNonNull t) v sels p s b r m a s'"
| below_list:
    "violation_items sch vars t vs 0 sels p s b r m a s'
     \<Longrightarrow> violation_present sch vars (GraphQLList t) (JList vs) sels p s b r m a s'"
| below_object:
    "\<lbrakk>is_object sch n; violation_fields sch vars n v sels p s b r m a s'\<rbrakk>
     \<Longrightarrow> violation_present sch vars (GraphQLNamed n) v sels p s b r m a s'"
| among_items:
    "\<lbrakk>complete_items sch vars t vs1 i sels p s = (x1, e1, s1);
      violation_value sch vars t v sels (p @ [Index (i + length vs1)]) s1 b r m a s2;
      complete_items sch vars t vs2 (Suc (i + length vs1)) sels p s2 = (x2, e2, s3)\<rbrakk>
     \<Longrightarrow> violation_items sch vars t (vs1 @ v # vs2) i sels p s
           (e1 @ b) (Index (i + length vs1) # r) m (a @ e2) s3"

section \<open>The schema surface\<close>

text \<open>
  What it means for the schema to expose an operation, read off the declared fields.
  A collection field returns a non-null list of non-null \<open>K\<close> and takes no argument; a
  lookup returns a nullable \<open>K\<close> and takes an \<open>id\<close>. A create operation returns a
  non-null \<open>K\<close> from a \<open>dto\<close>; an update returns a non-null \<open>K\<close> from an \<open>id\<close> and a
  \<open>dto\<close>; a delete is the field \<open>deleteK\<close>, taking an \<open>id\<close>. The relation-toggling
  operations are the fields over a pair \<open>userId\<close>, \<open>authorId\<close>.
\<close>

definition query_fields :: "'s schema \<Rightarrow> (string \<times> 's field) list" where
  "query_fields sch = fields_of sch (query_type sch)"

definition mutation_fields :: "'s schema \<Rightarrow> (string \<times> 's field) list" where
  "mutation_fields sch = (case mutation_type sch of None \<Rightarrow> [] | Some M \<Rightarrow> fields_of sch M)"

definition exposes_collection :: "'s schema \<Rightarrow> string \<Rightarrow> bool" where
  "exposes_collection sch K =
     list_ex (\<lambda>(n, fd). ftype fd = list_of K \<and> args fd = []) (query_fields sch)"

definition exposes_lookup :: "'s schema \<Rightarrow> string \<Rightarrow> bool" where
  "exposes_lookup sch K =
     list_ex (\<lambda>(n, fd). ftype fd = GraphQLNamed K \<and> map fst (args fd) = [''id''])
       (query_fields sch)"

definition exposes_create :: "'s schema \<Rightarrow> string \<Rightarrow> bool" where
  "exposes_create sch K =
     list_ex (\<lambda>(n, fd). ftype fd = GraphQLNonNull (GraphQLNamed K) \<and> map fst (args fd) = [''dto''])
       (mutation_fields sch)"

definition exposes_update :: "'s schema \<Rightarrow> string \<Rightarrow> bool" where
  "exposes_update sch K =
     list_ex (\<lambda>(n, fd). ftype fd = GraphQLNonNull (GraphQLNamed K)
         \<and> map fst (args fd) = [''id'', ''dto''])
       (mutation_fields sch)"

definition exposes_delete :: "'s schema \<Rightarrow> string \<Rightarrow> bool" where
  "exposes_delete sch K =
     list_ex (\<lambda>(n, fd). n = ''delete'' @ K \<and> map fst (args fd) = [''id''])
       (mutation_fields sch)"

definition relation_toggles :: "'s schema \<Rightarrow> string list" where
  "relation_toggles sch =
     map fst (filter (\<lambda>(n, fd). map fst (args fd) = [''userId'', ''authorId''])
       (mutation_fields sch))"

text \<open>The lookup the two subscription resolvers make for each edge:
  \<open>prisma.user.findFirst({ where: { id } })\<close>.\<close>

definition lookup_user :: "'s prisma \<Rightarrow> 's \<Rightarrow> jsval \<Rightarrow> thrown + row option" where
  "lookup_user pc s uid = findFirst pc M_user (where_arg [(''id'', uid)]) s"

text \<open>The repository call that each mutation resolver makes inside its \<open>try\<close>, as a
  function of the argument object, with the prefix its \<open>catch\<close> puts before the caught
  error's message.\<close>

definition mutation_calls ::
  "'s prisma \<Rightarrow> (string \<times> string \<times> ((string \<times> jsval) list \<Rightarrow> 's \<Rightarrow> (thrown + row) \<times> 's)) list" where
  "mutation_calls pc =
     [(''createUser'', ''Failed to create user: '',
        \<lambda>as. create pc M_user (JObj [(''data'', arg as ''dto'')])),
      (''createProfile'', ''Failed to create profile: '',
        \<lambda>as. create pc M_profile (JObj [(''data'', arg as ''dto'')])),
      (''createPost'', ''Failed to create post: '',
        \<lambda>as. create pc M_post (JObj [(''data'', arg as ''dto'')])),
      (''changePost'', ''Failed to update post: '',
        \<lambda>as. update pc M_post
          (JObj [(''where'', JObj [(''id'', arg as ''id'')]), (''data'', arg as ''dto'')])),
      (''changeProfile'', ''Failed to update profile: '',
        \<lambda>as. update pc M_profile
          (JObj [(''where'', JObj [(''id'', arg as ''id'')]), (''data'', arg as ''dto'')])),
      (''changeUser'', ''Failed to update user: '',
        \<lambda>as. update pc M_user
          (JObj [(''where'', JObj [(''id'', arg as ''id'')]), (''data'', arg as ''dto'')])),
      (''deleteUser'', ''Failed to delete user: '',
        \<lambda>as. delete pc M_user (where_arg [(''id'', arg as ''id'')])),
      (''deletePost'', ''Failed to delete post: '',
        \<lambda>as. delete pc M_post (where_arg [(''id'', arg as ''id'')])),
      (''deleteProfile'', ''Failed to delete profile: '',
        \<lambda>as. delete pc M_profile (where_arg [(''id'', arg as ''id'')])),
      (''subscribeTo'', ''Failed to subscribe: '',
        \<lambda>as. create pc M_subscribersOnAuthors
          (JObj [(''data'', JObj [(''subscriberId'', arg as ''userId''),
                                  (''authorId'', arg as ''authorId'')])])),
      (''unsubscribeFrom'', ''Failed to unsubscribe: '',
        \<lambda>as. delete pc M_subscribersOnAuthors
          (where_arg [(''subscriberId_authorId'',
             JObj [(''subscriberId'', arg as ''userId''), (''authorId'', arg as ''authorId'')])]))]"

section \<open>An in-memory client\<close>

text \<open>
  A small client over tables held in memory, and a table of scalar types, on which
  the definitions can be run: one table of rows per model; \<open>where\<close> selects the rows
  that have the given values; \<open>create\<close> appends the \<open>data\<close> object and fails
  without one; \<open>update\<close> and \<open>delete\<close> fail when no row matches.
\<close>

type_synonym store = "model \<Rightarrow> row list"

definition conditions :: "jsval \<Rightarrow> (string \<times> jsval) list" where
  "conditions a = (case getprop a ''where'' of
      JObj conds \<Rightarrow> concat (map (\<lambda>(k, v). case v of JObj inner \<Rightarrow> inner | _ \<Rightarrow> [(k, v)]) conds)
    | _ \<Rightarrow> [])"

definition matches :: "(string \<times> jsval) list \<Rightarrow> row \<Rightarrow> bool" where
  "matches conds r = list_all (\<lambda>(k, v). map_of r k = Some v) conds"

definition memory_prisma :: "store prisma" where
  "memory_prisma =
     \<lparr>findMany = (\<lambda>m a st. Inr (filter (matches (conditions a)) (st m))),
      findFirst = (\<lambda>m a st. Inr (find (matches (conditions a)) (st m))),
      create = (\<lambda>m a st. case getprop a ''data'' of
          JObj r \<Rightarrow> (Inr r, st(m := st m @ [r]))
        | _ \<Rightarrow> (Inl (ErrorObj ''Argument data is missing''), st)),
      update = (\<lambda>m a st. case find (matches (conditions a)) (st m) of
          None \<Rightarrow> (Inl (ErrorObj ''Record to update not found''), st)
        | Some r \<Rightarrow>
            (case getprop a ''data'' of
               JObj d \<Rightarrow>
                 (Inr (d @ filter (\<lambda>(k, v). map_of d k = None) r),
                  st(m := map (\<lambda>x. if x = r then d @ filter (\<lambda>(k, v). map_of d k = None) r else x)
                            (st m)))
             | _ \<Rightarrow> (Inl (ErrorObj ''Argument data is missing''), st))),
      delete = (\<lambda>m a st. case find (matches (conditions a)) (st m) of
          None \<Rightarrow> (Inl (ErrorObj ''Record to delete does not exist''), st)
        | Some r \<Rightarrow> (Inr r, st(m := filter (\<lambda>x. x \<noteq> r) (st m)))),
      first_rejection = (\<lambda>es. case es of [] \<Rightarrow> NonError | e # _ \<Rightarrow> e)\<rparr>"

definition standard_scalars :: "(string \<times> 's named_type) list" where
  "standard_scalars =
     [(''String'', GraphQLScalarType (\<lambda>v. case v of JStr x \<Rightarrow> True | _ \<Rightarrow> False)),
      (''Int'', GraphQLScalarType (\<lambda>v. case v of JNum r \<Rightarrow> of_int \<lfloor>r\<rfloor> = r | _ \<Rightarrow> False)),
      (''Float'', GraphQLScalarType (\<lambda>v. case v of JNum r \<Rightarrow> True | _ \<Rightarrow> False)),
      (''Boolean'', GraphQLScalarType (\<lambda>v. case v of JBool b \<Rightarrow> True | _ \<Rightarrow> False)),
      (''UUID'', GraphQLScalarType (\<lambda>v. case v of JStr x \<Rightarrow> length x = 36 | _ \<Rightarrow> False))]"

definition empty_store :: store where
  "empty_store = (\<lambda>m. [])"

text \<open>A parser stub that reads the request text as a given document, and a store with
  one user, her profile (whose member type has no row) and one subscription edge to
  a user that has no row.\<close>

definition parse_as :: "document \<Rightarrow> string \<Rightarrow> thrown + document" where
  "parse_as doc src = Inr doc"

definition ann :: row where
  "ann = [(''id'', JStr ''11111111-1111-4111-8111-111111111111''),
          (''name'', JStr ''Ann''), (''balance'', JNum 0)]"

definition ann_profile :: row where
  "ann_profile = [(''id'', JStr ''22222222-2222-4222-8222-222222222222''),
          (''isMale'', JBool False), (''yearOfBirth'', JNum 1990),
          (''userId'', JStr ''11111111-1111-4111-8111-111111111111''),
          (''memberTypeId'', JStr ''BASIC'')]"

definition ann_follows :: row where
  "ann_follows = [(''subscriberId'', JStr ''11111111-1111-4111-8111-111111111111''),
          (''authorId'', JStr ''33333333-3333-4333-8333-333333333333'')]"

fun example_store :: store where
  "example_store M_user = [ann]"
| "example_store M_profile = [ann_profile]"
| "example_store M_subscribersOnAuthors = [ann_follows]"
| "example_store M_memberType = []"
| "example_store M_post = []"

definition example_schema :: "store schema" where
  "example_schema = createGraphQLSchema standard_scalars memory_prisma"

definition leaf :: "string \<Rightarrow> selection" where
  "leaf f = FieldNode None f [] []"

text \<open>Documents of a chosen depth: a chain of \<open>userSubscribedTo\<close> selections under
  \<open>users\<close>, ending in \<open>id\<close>.\<close>

fun nested :: "nat \<Rightarrow> selection" where
  "nested 0 = leaf ''id''"
| "nested (Suc n) = FieldNode None ''userSubscribedTo'' [] [nested n]"

definition chain :: "nat \<Rightarrow> document" where
  "chain n = \<lparr>operation = OpQuery, selections = [FieldNode None ''users'' [] [nested n]]\<rparr>"

definition users_names :: document where
  "users_names = \<lparr>operation = OpQuery, selections = [FieldNode None ''users'' [] [leaf ''name'']]\<rparr>"

definition users_request :: request where
  "users_request = \<lparr>query = ''{ users { name } }'', variables = None\<rparr>"

definition bad_delete :: document where
  "bad_delete = \<lparr>operation = OpMutation, selections = [leaf ''deleteUser'']\<rparr>"


definition missing_id :: jsval where
  "missing_id = JStr ''44444444-4444-4444-8444-444444444444''"

definition missing_user :: document where
  "missing_user = \<lparr>operation = OpQuery,
     selections = [FieldNode None ''user'' [(''id'', Lit missing_id)] [leaf ''name'']]\<rparr>"

definition some_request :: request where
  "some_request = \<lparr>query = ''the text of the document'', variables = None\<rparr>"

definition change_missing :: document where
  "change_missing = \<lparr>operation = OpMutation,
     selections = [FieldNode None ''changeUser''
        [(''id'', Lit missing_id), (''dto'', Lit (JObj [(''name'', JStr ''Bob'')]))]
        [leaf ''id'']]\<rparr>"

text \<open>A client that cannot reach its database: every call fails with a transport
  error.\<close>

definition offline :: thrown where
  "offline = ErrorObj ''connect ECONNREFUSED 10.0.0.5:5432''"

definition offline_prisma :: "store prisma" where
  "offline_prisma =
     \<lparr>findMany = (\<lambda>m a st. Inl offline),
      findFirst = (\<lambda>m a st. Inl offline),
      create = (\<lambda>m a st. (Inl offline, st)),
      update = (\<lambda>m a st. (Inl offline, st)),
      delete = (\<lambda>m a st. (Inl offline, st)),
      first_rejection = (\<lambda>es. offline)\<rparr>"

definition create_ann :: document where
  "create_ann = \<lparr>operation = OpMutation,
     selections = [FieldNode None ''createUser''
        [(''dto'', Lit (JObj [(''name'', JStr ''Ann''), (''balance'', JNum 0)]))]
        [leaf ''id'']]\<rparr>"

definition create_profile_without_dto :: document where
  "create_profile_without_dto = \<lparr>operation = OpMutation,
     selections = [FieldNode None ''createProfile'' [] [leaf ''id'']]\<rparr>"

text \<open>A store in which Ann has two posts, the second without its title, and a selection
  on the query root that asks for the titles of her posts.\<close>

definition first_post :: row where
  "first_post = [(''id'', JStr ''55555555-5555-4555-8555-555555555555''),
          (''title'', JStr ''Hello''), (''content'', JStr ''First''),
          (''authorId'', JStr ''11111111-1111-4111-8111-111111111111'')]"

definition untitled_post :: row where
  "untitled_post = [(''id'', JStr ''66666666-6666-4666-8666-666666666666''),
          (''content'', JStr ''Second''),
          (''authorId'', JStr ''11111111-1111-4111-8111-111111111111'')]"

fun blog_store :: store where
  "blog_store M_user = [ann]"
| "blog_store M_post = [first_post, untitled_post]"
| "blog_store M_profile = []"
| "blog_store M_subscribersOnAuthors = []"
| "blog_store M_memberType = []"

definition ann_posts :: "selection list" where
  "ann_posts = [leaf ''name'', FieldNode None ''posts'' [] [leaf ''id'', leaf ''title'']]"

definition blog_query :: "selection list" where
  "blog_query =
     [FieldNode None ''memberTypes'' [] [leaf ''id'']] @
     FieldNode None ''user'' [(''id'', Lit (JStr ''11111111-1111-4111-8111-111111111111''))]
       ann_posts #
     [FieldNode None ''users'' [] [leaf ''name'']]"

section \<open>Evaluation rules for the examples\<close>

lemmas schema_simps =
  example_schema_def createGraphQLSchema_def field_of_def fields_of_def type_of_def is_object_def
  query_fields_def mutation_fields_def
  MemberTypeId_def MemberType_def Post_def Profile_def User_def RootQueryType_def Mutations_def
  ChangePostInput_def ChangeProfileInput_def ChangeUserInput_def
  CreatePostInput_def CreateProfileInput_def CreateUserInput_def
  plain_def list_of_def standard_scalars_def
  GraphQLString_def GraphQLInt_def GraphQLFloat_def GraphQLBoolean_def UUIDType_def

lemmas client_simps =
  memory_prisma_def conditions_def matches_def where_arg_def getprop_def arg_def
  first_or_null_def row_or_null_def rows_def empty_store_def lookup_user_def
  ann_def ann_profile_def ann_follows_def

lemmas resolver_simps =
  invoke_def Profile_memberType_def User_profile_def User_posts_def
  User_userSubscribedTo_def User_subscribedToUser_def find_all_def find_by_id_def
  create_entity_def change_entity_def delete_entity_def subscribeTo_def unsubscribeFrom_def
  rethrow_def returning_row_def returning_def

lemmas engine_simps =
  engine_def engine_with_def graphql_pipeline_def run_rules_def specifiedRules_def
  structure_rule_def root_type_def depth_rule_def document_depth_def check_args_def verr_def
  execute_def parse_as_def leaf_def out_key_def absent_def failed_def
  handler_def handler_depthLimit_def limit_def

section \<open>The handlers\<close>

text \<open>
  C10. For every request whose query document parses and on which the validation pass
  with the depth rule at bound 5 reports no error, the handler that runs that pass first
  returns what the handler that calls the executor directly returns, on the same schema,
  variables and store. This holds whatever the package functions do.
\<close>

theorem handlers_agree_when_depth_rule_passes:
  assumes "parse lib (query req) = Inr doc"
    and "validate lib sch doc [depthLimit lib 5] = []"
  shows "handler_depthLimit lib sch req s = handler lib sch req s"
  using assms by (simp add: handler_depthLimit_def handler_def limit_def)

theorem handlers_agree_witness:
  "parse (engine (parse_as users_names) :: store packages) (query users_request) = Inr users_names
   \<and> validate (engine (parse_as users_names)) example_schema users_names
         [depthLimit (engine (parse_as users_names)) 5] = []
   \<and> handler_depthLimit (engine (parse_as users_names)) example_schema users_request example_store
     = handler (engine (parse_as users_names)) example_schema users_request example_store
   \<and> handler (engine (parse_as users_names)) example_schema users_request example_store
     = (Inr \<lparr>data = Some (JObj [(''users'', JList [JObj [(''name'', JStr ''Ann'')]])]), errors = []\<rparr>,
        example_store)"
proof -
  let ?lib = "engine (parse_as users_names) :: store packages"
  have p: "parse ?lib (query users_request) = Inr users_names"
    by (simp add: engine_def engine_with_def parse_as_def)
  have v: "validate ?lib example_schema users_names [depthLimit ?lib 5] = []"
    by (simp add: engine_simps users_names_def)
  have r: "handler ?lib example_schema users_request example_store
     = (Inr \<lparr>data = Some (JObj [(''users'', JList [JObj [(''name'', JStr ''Ann'')]])]), errors = []\<rparr>,
        example_store)"
    by (simp add: engine_simps users_names_def users_request_def
        schema_simps client_simps resolver_simps)
  show ?thesis
    using p v r handlers_agree_when_depth_rule_passes [OF p v, of example_store] by blast
qed

text \<open>
  C1. For every query document whose selection depth is at most the bound, the depth
  validation pass reports no error and the handler goes on to the executor (its reply
  is the executor pipeline's); for every document of depth one more than the bound, the
  handler replies with exactly one error, a ValidationError, and no data, and leaves
  the store as it was. The bound is the constant 5, whatever the request.
\<close>

theorem depth_rule_bound:
  assumes "parse_fn (query req) = Inr doc"
  shows "(document_depth doc \<le> limit \<longrightarrow>
            validate (engine_with parse_fn exec) sch doc [depthLimit (engine_with parse_fn exec) limit] = []
          \<and> handler_depthLimit (engine_with parse_fn exec) sch req s
              = (case graphql (engine_with parse_fn exec) sch (query req) (variables req) s of
                   (r, s') \<Rightarrow> (Inr r, s')))
       \<and> (document_depth doc = limit + 1 \<longrightarrow>
            (\<exists>e. handler_depthLimit (engine_with parse_fn exec) sch req s
                    = (Inr \<lparr>data = None, errors = [e]\<rparr>, s)
                \<and> kind e = ValidationError))
       \<and> limit = 5"
  using assms
  by (simp add: handler_depthLimit_def engine_with_def run_rules_def depth_rule_def verr_def limit_def)

theorem depth_rule_bound_witness:
  "document_depth (chain 4) \<le> limit
   \<and> handler_depthLimit (engine_with (parse_as (chain 4)) execute) example_schema users_request empty_store
     = (Inr \<lparr>data = Some (JObj [(''users'', JList [])]), errors = []\<rparr>, empty_store)
   \<and> document_depth (chain 5) = limit + 1
   \<and> (\<exists>e. handler_depthLimit (engine_with (parse_as (chain 5)) execute) example_schema users_request empty_store
           = (Inr \<lparr>data = None, errors = [e]\<rparr>, empty_store)
         \<and> kind e = ValidationError)"
proof -
  have d4: "document_depth (chain 4) \<le> limit"
    by (simp add: document_depth_def chain_def limit_def eval_nat_numeral leaf_def)
  have d5: "document_depth (chain 5) = limit + 1"
    by (simp add: document_depth_def chain_def limit_def eval_nat_numeral leaf_def)
  have p4: "parse_as (chain 4) (query users_request) = Inr (chain 4)"
    and p5: "parse_as (chain 5) (query users_request) = Inr (chain 5)"
    by (simp_all add: parse_as_def)
  have g: "graphql (engine_with (parse_as (chain 4)) execute) example_schema
        (query users_request) (variables users_request) empty_store
      = (\<lparr>data = Some (JObj [(''users'', JList [])]), errors = []\<rparr>, empty_store)"
    by (simp add: engine_simps chain_def eval_nat_numeral
        schema_simps client_simps resolver_simps)
  have h4: "handler_depthLimit (engine_with (parse_as (chain 4)) execute) example_schema
        users_request empty_store
      = (case graphql (engine_with (parse_as (chain 4)) execute) example_schema
              (query users_request) (variables users_request) empty_store of
           (r, s') \<Rightarrow> (Inr r, s'))"
    using d4 depth_rule_bound [where parse_fn = "parse_as (chain 4)" and req = users_request
        and doc = "chain 4" and exec = execute and sch = example_schema and s = empty_store, OF p4]
    by blast
  have h5: "\<exists>e. handler_depthLimit (engine_with (parse_as (chain 5)) execute) example_schema
        users_request empty_store = (Inr \<lparr>data = None, errors = [e]\<rparr>, empty_store)
      \<and> kind e = ValidationError"
    using d5 depth_rule_bound [where parse_fn = "parse_as (chain 5)" and req = users_request
        and doc = "chain 5" and exec = execute and sch = example_schema and s = empty_store, OF p5]
    by blast
  from h4 have "handler_depthLimit (engine_with (parse_as (chain 4)) execute) example_schema
        users_request empty_store
      = (Inr \<lparr>data = Some (JObj [(''users'', JList [])]), errors = []\<rparr>, empty_store)"
    unfolding g by simp
  with d4 d5 h5 show ?thesis
    by blast
qed

text \<open>
  C3. For every incoming document on which validation reports at least one error,
  whether the depth rule in the handler's own pass or the structural checks of the
  executor pipeline, the handler replies with the error list alone: the response has
  no data, the store is left as it was, and the reply is the same whatever the executor
  is, so no resolver has run.
\<close>

theorem validation_failure_short_circuits:
  assumes "parse_fn (query req) = Inr doc"
    and "run_rules sch doc [depth_rule limit] \<noteq> [] \<or> run_rules sch doc specifiedRules \<noteq> []"
  shows "\<exists>es. es \<noteq> []
      \<and> es = (if run_rules sch doc [depth_rule limit] \<noteq> [] then run_rules sch doc [depth_rule limit]
              else run_rules sch doc specifiedRules)
      \<and> (\<forall>exec. handler_depthLimit (engine_with parse_fn exec) sch req s
                  = (Inr \<lparr>data = None, errors = es\<rparr>, s))"
proof (cases "run_rules sch doc [depth_rule limit] = []")
  case True
  with assms(2) obtain e es where es: "run_rules sch doc specifiedRules = e # es"
    by (cases "run_rules sch doc specifiedRules") auto
  with True assms(1) show ?thesis
    by (simp add: handler_depthLimit_def engine_with_def graphql_pipeline_def)
next
  case False
  with assms(1) show ?thesis
    by (simp add: handler_depthLimit_def engine_with_def)
qed

theorem validation_failure_witness:
  "run_rules example_schema bad_delete specifiedRules
     = [verr ''Argument id is required, but it was not provided'']
   \<and> (\<forall>exec. handler_depthLimit (engine_with (parse_as bad_delete) exec) example_schema
                users_request example_store
        = (Inr \<lparr>data = None, errors = [verr ''Argument id is required, but it was not provided'']\<rparr>,
           example_store))"
proof -
  have p: "parse_as bad_delete (query users_request) = Inr bad_delete"
    by (simp add: parse_as_def)
  have d: "run_rules example_schema bad_delete [depth_rule limit] = []"
    by (simp add: run_rules_def depth_rule_def document_depth_def bad_delete_def leaf_def)
  have v: "run_rules example_schema bad_delete specifiedRules
     = [verr ''Argument id is required, but it was not provided'']"
    by (simp add: run_rules_def specifiedRules_def structure_rule_def root_type_def
        check_args_def bad_delete_def leaf_def schema_simps)
  from v have "run_rules example_schema bad_delete [depth_rule limit] \<noteq> []
      \<or> run_rules example_schema bad_delete specifiedRules \<noteq> []"
    by simp
  from validation_failure_short_circuits [where parse_fn = "parse_as bad_delete"
      and req = users_request and doc = bad_delete and sch = example_schema
      and s = example_store, OF p this]
  show ?thesis
    using d v by simp
qed

section \<open>The resolvers\<close>

lemma Promise_all_map:
  assumes "\<forall>x \<in> set xs. \<exists>r. g x = Inr r"
  shows "Promise_all settles (map g xs) = Inr (map (\<lambda>x. projr (g x)) xs)"
proof -
  have "rejections (map g xs) = [] \<and> fulfilled (map g xs) = map (\<lambda>x. projr (g x)) xs"
    using assms by (induction xs) auto
  then show ?thesis
    by (simp add: Promise_all_def)
qed

text \<open>
  C8. The fields \<open>userSubscribedTo\<close> and \<open>subscribedToUser\<close> of \<open>User\<close> are declared
  as non-null lists of non-null \<open>User\<close>. Whenever the edge query and the user lookups
  return, their resolver returns a list with exactly one element per subscription
  edge, in the order of the edges; element \<open>i\<close> is the user found under the counterpart
  id of edge \<open>i\<close>, and it is \<open>null\<close> when no user has that id.
\<close>

theorem subscription_resolvers_one_element_per_edge:
  assumes which:
      "(f, r, own, other)
          = (''userSubscribedTo'', User_userSubscribedTo pc, ''subscriberId'', ''authorId'')
       \<or> (f, r, own, other)
          = (''subscribedToUser'', User_subscribedToUser pc, ''authorId'', ''subscriberId'')"
    and edges:
      "findMany pc M_subscribersOnAuthors (where_arg [(own, getprop user ''id'')]) s = Inr edges"
    and found: "\<forall>e \<in> set edges. \<exists>u. lookup_user pc s (getprop (JObj e) other) = Inr u"
  shows "field_of (createGraphQLSchema scalars pc) ''User'' f
        = Some \<lparr>ftype = GraphQLNonNull (GraphQLList (GraphQLNonNull (GraphQLNamed ''User''))),
                args = [], resolve = Some r\<rparr>
      \<and> (\<exists>xs. r user as s = (Inr (JList xs), s)
            \<and> length xs = length edges
            \<and> (\<forall>i < length edges.
                 (\<forall>u. lookup_user pc s (getprop (JObj (edges ! i)) other) = Inr (Some u)
                        \<longrightarrow> xs ! i = JObj u)
               \<and> (lookup_user pc s (getprop (JObj (edges ! i)) other) = Inr None
                        \<longrightarrow> xs ! i = JNull)))"
proof -
  let ?g = "\<lambda>e. first_or_null pc M_user [(''id'', getprop (JObj e) other)] s"
  let ?xs = "map (\<lambda>e. projr (?g e)) edges"
  have decl: "field_of (createGraphQLSchema scalars pc) ''User'' f
        = Some \<lparr>ftype = GraphQLNonNull (GraphQLList (GraphQLNonNull (GraphQLNamed ''User''))),
                args = [], resolve = Some r\<rparr>"
    using which
    by (auto simp: createGraphQLSchema_def field_of_def fields_of_def type_of_def
        MemberTypeId_def MemberType_def Post_def Profile_def User_def)
  have ok: "\<forall>e \<in> set edges. \<exists>v. ?g e = Inr v"
    using found by (auto simp: first_or_null_def lookup_user_def)
  have all: "Promise_all (first_rejection pc) (map ?g edges) = Inr ?xs"
    by (rule Promise_all_map [OF ok])
  have res: "r user as s = (Inr (JList ?xs), s)"
    using which edges all
    by (auto simp: User_userSubscribedTo_def User_subscribedToUser_def)
  have elem: "(\<forall>u. lookup_user pc s (getprop (JObj (edges ! i)) other) = Inr (Some u)
                 \<longrightarrow> ?xs ! i = JObj u)
      \<and> (lookup_user pc s (getprop (JObj (edges ! i)) other) = Inr None \<longrightarrow> ?xs ! i = JNull)"
    if "i < length edges" for i
    using that by (simp add: first_or_null_def lookup_user_def row_or_null_def)
  show ?thesis
    using decl res elem by (intro conjI exI [of _ ?xs]) simp_all
qed

theorem subscription_resolvers_witness:
  "findMany memory_prisma M_subscribersOnAuthors
       (where_arg [(''subscriberId'', getprop (JObj ann) ''id'')]) example_store = Inr [ann_follows]
   \<and> lookup_user memory_prisma example_store (getprop (JObj ann_follows) ''authorId'') = Inr None
   \<and> User_userSubscribedTo memory_prisma (JObj ann) [] example_store
       = (Inr (JList [JNull]), example_store)"
proof -
  have e: "findMany memory_prisma M_subscribersOnAuthors
       (where_arg [(''subscriberId'', getprop (JObj ann) ''id'')]) example_store = Inr [ann_follows]"
    by (simp add: client_simps)
  have l: "lookup_user memory_prisma example_store (getprop (JObj ann_follows) ''authorId'')
       = Inr None"
    by (simp add: client_simps)
  then have f: "\<forall>e \<in> set [ann_follows].
      \<exists>u. lookup_user memory_prisma example_store (getprop (JObj e) ''authorId'') = Inr u"
    by simp
  have w: "(''userSubscribedTo'', User_userSubscribedTo memory_prisma, ''subscriberId'', ''authorId'')
          = (''userSubscribedTo'', User_userSubscribedTo memory_prisma, ''subscriberId'', ''authorId'')
       \<or> (''userSubscribedTo'', User_userSubscribedTo memory_prisma, ''subscriberId'', ''authorId'')
          = (''subscribedToUser'', User_subscribedToUser memory_prisma, ''authorId'', ''subscriberId'')"
    by simp
  from subscription_resolvers_one_element_per_edge [OF w e f, of standard_scalars "[]"]
  obtain xs where xs: "User_userSubscribedTo memory_prisma (JObj ann) [] example_store
        = (Inr (JList xs), example_store)"
      "length xs = 1" "xs ! 0 = JNull"
    using l by auto
  then have "xs = [JNull]"
    by (cases xs) auto
  with xs e l show ?thesis
    by simp
qed

section \<open>Null propagation\<close>

lemma exec_fields_append:
  "exec_fields sch vars T parent (xs @ ys) p s =
     (case exec_fields sch vars T parent xs p s of
        (r1, e1, s1) \<Rightarrow>
          (case exec_fields sch vars T parent ys p s1 of
             (r2, e2, s2) \<Rightarrow>
               ((case (r1, r2) of (Some a, Some b) \<Rightarrow> Some (a @ b) | _ \<Rightarrow> None), e1 @ e2, s2)))"
  by (induction xs arbitrary: s) (auto split: prod.splits option.splits)

lemma complete_items_append:
  "complete_items sch vars t (xs @ ys) i sels p s =
     (case complete_items sch vars t xs i sels p s of
        (r1, e1, s1) \<Rightarrow>
          (case complete_items sch vars t ys (i + length xs) sels p s1 of
             (r2, e2, s2) \<Rightarrow>
               ((case (r1, r2) of (Some a, Some b) \<Rightarrow> Some (a @ b) | _ \<Rightarrow> None), e1 @ e2, s2)))"
  by (induction xs arbitrary: s i) (auto split: prod.splits option.splits)

text \<open>The engine passes a violation upwards through every position of non-null type,
  with exactly one error for the failing field, at the path of that field.\<close>

lemma violation_is_passed_upwards:
  shows "violation_field sch vars T parent sel p s b r m a s'
      \<Longrightarrow> exec_field sch vars T parent sel p s = (None, b @ [ferr (p @ r) m] @ a, s')"
    and "violation_fields sch vars T parent sels p s b r m a s'
      \<Longrightarrow> exec_fields sch vars T parent sels p s = (None, b @ [ferr (p @ r) m] @ a, s')"
    and "violation_value sch vars t v sels p s b r m a s'
      \<Longrightarrow> complete_value sch vars t v sels p s = (None, b @ [ferr (p @ r) m] @ a, s')"
    and "violation_present sch vars t v sels p s b r m a s'
      \<Longrightarrow> complete_present sch vars t v sels p s = (None, b @ [ferr (p @ r) m] @ a, s')"
    and "violation_items sch vars t vs i sels p s b r m a s'
      \<Longrightarrow> complete_items sch vars t vs i sels p s = (None, b @ [ferr (p @ r) m] @ a, s')"
proof (induction rule:
    violation_field_violation_fields_violation_value_violation_present_violation_items.inducts)
  case (resolver_fails T f fd as avs parent s e s' al sels p)
  then show ?case
    by (cases "ftype fd") (simp_all add: failed_def)
next
  case (below_field T f fd as avs parent s v s1 sels p al b r m a s')
  then show ?case
    by simp
next
  case (among_fields T parent pre p s x1 e1 s1 sel b r m a s2 post x2 e2 s3)
  then show ?case
    by (simp add: exec_fields_append split: option.splits)
next
  case (absent_value v t sels p s)
  then show ?case
    by simp
next
  case (below_non_null v t sels p s b r m a s')
  then show ?case
    by simp
next
  case (below_wrapper t v sels p s b r m a s')
  then show ?case
    by simp
next
  case (below_list t vs sels p s b r m a s')
  then show ?case
    by simp
next
  case (below_object n v sels p s b r m a s')
  then show ?case
    by simp
next
  case (among_items t vs1 i sels p s x1 e1 s1 v b r m a s2 vs2 x2 e2 s3)
  then show ?case
    by (simp add: complete_items_append split: option.splits)
qed

text \<open>A violation that no position of nullable type stops reaches the root: the whole
  data payload is \<open>null\<close>, with the same errors.\<close>

lemma violation_reaches_the_root:
  assumes "root_type sch doc = Some T"
    and "violation_fields sch vars T JUndefined (selections doc) [] s b r m a s'"
  shows "execute sch doc vars s = (\<lparr>data = Some JNull, errors = b @ [ferr r m] @ a\<rparr>, s')"
  using assms(1) violation_is_passed_upwards(2) [OF assms(2)]
  by (simp add: execute_def)

text \<open>
  C2. Take any object of the result tree and a field \<open>f\<close> selected on it whose declared
  type is nullable (as \<open>User.profile\<close>) and whose resolver returns a present value.
  Let a field of non-null declared type anywhere below \<open>f\<close> fail or resolve to an
  absent value (as \<open>Profile.memberType\<close>, or \<open>MemberType.id\<close> under it, or a field of
  an element of a list), with only positions of non-null type between that field
  and \<open>f\<close>, so that \<open>f\<close> is its nearest enclosing nullable ancestor. Then \<open>f\<close> is
  \<open>null\<close> in the result; the fields selected beside \<open>f\<close> keep the values they resolve
  to; and the error list is the errors of the other fields with exactly one entry
  added, whose path is the path of the failing field.
\<close>

theorem non_null_failure_nulls_nearest_nullable_ancestor:
  assumes anc: "field_of sch T f = Some fd" "\<not> required (ftype fd)"
    and anc_args: "coerce_args sch vars (args fd) as = Inr avs"
    and pre: "exec_fields sch vars T parent pre p s = (Some pre_obj, pre_errs, s1)"
    and anc_res: "invoke fd f parent avs s1 = (Inr v, s2)" "\<not> absent v"
    and below: "violation_present sch vars (ftype fd) v sels (p @ [Key (out_key al f)]) s2 b r m a s3"
    and post: "exec_fields sch vars T parent post p s3 = (Some post_obj, post_errs, s4)"
  shows "exec_fields sch vars T parent (pre @ FieldNode al f as sels # post) p s
      = (Some (pre_obj @ (out_key al f, JNull) # post_obj),
         pre_errs @ b @ [ferr (p @ Key (out_key al f) # r) m] @ a @ post_errs,
         s4)"
proof -
  let ?p = "p @ [Key (out_key al f)]"
  have present: "complete_present sch vars (ftype fd) v sels ?p s2
      = (None, b @ [ferr (?p @ r) m] @ a, s3)"
    by (rule violation_is_passed_upwards(4) [OF below])
  have "complete_value sch vars (ftype fd) v sels ?p s2
      = (Some JNull, b @ [ferr (?p @ r) m] @ a, s3)"
    using anc(2) anc_res(2) present
    by (cases "ftype fd") (simp_all del: complete_present.simps)
  then have f: "exec_field sch vars T parent (FieldNode al f as sels) p s1
      = (Some JNull, b @ [ferr (?p @ r) m] @ a, s3)"
    using anc(1) anc_args anc_res(1) by simp
  have "exec_fields sch vars T parent ([FieldNode al f as sels] @ post) p s1
      = (Some ((out_key al f, JNull) # post_obj), (b @ [ferr (?p @ r) m] @ a) @ post_errs, s4)"
    using f post by simp
  with pre show ?thesis
    by (simp add: exec_fields_append)
qed

theorem non_null_failure_witness:
  "exec_fields example_schema None ''RootQueryType'' JUndefined blog_query [] blog_store
     = (Some [(''memberTypes'', JList []), (''user'', JNull),
              (''users'', JList [JObj [(''name'', JStr ''Ann'')]])],
        [ferr [Key ''user'', Key ''posts'', Index 1, Key ''title'']
           ''Cannot return null for non-nullable field''],
        blog_store)"
proof -
  let ?m = "''Cannot return null for non-nullable field''"
  let ?posts = "[leaf ''id'', leaf ''title'']"
  let ?fd = "\<lparr>ftype = GraphQLNamed ''User'', args = [(''id'', GraphQLNonNull UUIDType)],
      resolve = Some (find_by_id memory_prisma M_user ''user'')\<rparr>"
  let ?pd = "\<lparr>ftype = GraphQLNonNull (GraphQLList (GraphQLNonNull (GraphQLNamed ''Post''))),
      args = [], resolve = Some (User_posts memory_prisma)\<rparr>"
  let ?td = "plain (GraphQLNonNull GraphQLString) :: store field"
  let ?item = "[Key ''user'', Key ''posts''] @ [Index (0 + length [JObj first_post])]"
  have title: "violation_field example_schema None ''Post'' (JObj untitled_post)
      (FieldNode None ''title'' [] []) ?item blog_store [] (Key (out_key None ''title'') # []) ?m [] blog_store"
  proof (rule below_field [where fd = ?td and avs = "[]" and v = JUndefined])
    show "field_of example_schema ''Post'' ''title'' = Some ?td"
      by (simp add: schema_simps)
    show "coerce_args example_schema None (args ?td) [] = Inr []"
      by (simp add: plain_def)
    show "invoke ?td ''title'' (JObj untitled_post) [] blog_store = (Inr JUndefined, blog_store)"
      by (simp add: invoke_def plain_def getprop_def untitled_post_def)
    show "violation_value example_schema None (ftype ?td) JUndefined []
        (?item @ [Key (out_key None ''title'')]) blog_store [] [] ?m [] blog_store"
      by (simp add: plain_def absent_value absent_def)
  qed
  have post_fields: "violation_fields example_schema None ''Post'' (JObj untitled_post)
      ([leaf ''id''] @ FieldNode None ''title'' [] [] # []) ?item blog_store
      ([] @ []) (Key (out_key None ''title'') # []) ?m ([] @ []) blog_store"
  proof (rule among_fields [OF _ title])
    show "exec_fields example_schema None ''Post'' (JObj untitled_post) [leaf ''id''] ?item blog_store
        = (Some [(''id'', JStr ''66666666-6666-4666-8666-666666666666'')], [], blog_store)"
      by (simp add: leaf_def out_key_def absent_def invoke_def getprop_def untitled_post_def
          schema_simps)
    show "exec_fields example_schema None ''Post'' (JObj untitled_post) [] ?item blog_store
        = (Some [], [], blog_store)"
      by simp
  qed
  have item: "violation_value example_schema None (GraphQLNonNull (GraphQLNamed ''Post''))
      (JObj untitled_post) ?posts ?item blog_store [] [Key ''title''] ?m [] blog_store"
  proof (rule below_non_null)
    show "\<not> absent (JObj untitled_post)"
      by (simp add: absent_def)
    show "violation_present example_schema None (GraphQLNamed ''Post'') (JObj untitled_post) ?posts
        ?item blog_store [] [Key ''title''] ?m [] blog_store"
    proof (rule below_object)
      show "is_object example_schema ''Post''"
        by (simp add: schema_simps)
      from post_fields
      show "violation_fields example_schema None ''Post'' (JObj untitled_post) ?posts ?item
          blog_store [] [Key ''title''] ?m [] blog_store"
        by (simp add: leaf_def out_key_def)
    qed
  qed
  have items: "violation_items example_schema None (GraphQLNonNull (GraphQLNamed ''Post''))
      ([JObj first_post] @ JObj untitled_post # []) 0 ?posts [Key ''user'', Key ''posts''] blog_store
      ([] @ []) (Index (0 + length [JObj first_post]) # [Key ''title'']) ?m ([] @ []) blog_store"
  proof (rule among_items [OF _ item])
    show "complete_items example_schema None (GraphQLNonNull (GraphQLNamed ''Post''))
        [JObj first_post] 0 ?posts [Key ''user'', Key ''posts''] blog_store
        = (Some [JObj [(''id'', JStr ''55555555-5555-4555-8555-555555555555''),
                       (''title'', JStr ''Hello'')]], [], blog_store)"
      by (simp add: leaf_def out_key_def absent_def invoke_def getprop_def first_post_def
          schema_simps)
    show "complete_items example_schema None (GraphQLNonNull (GraphQLNamed ''Post'')) []
        (Suc (0 + length [JObj first_post])) ?posts [Key ''user'', Key ''posts''] blog_store
        = (Some [], [], blog_store)"
      by simp
  qed
  have posts: "violation_field example_schema None ''User'' (JObj ann)
      (FieldNode None ''posts'' [] ?posts) [Key ''user''] blog_store
      [] (Key (out_key None ''posts'') # [Index 1, Key ''title'']) ?m [] blog_store"
  proof (rule below_field [where fd = ?pd and avs = "[]"
        and v = "JList [JObj first_post, JObj untitled_post]"])
    show "field_of example_schema ''User'' ''posts'' = Some ?pd"
      by (simp add: schema_simps)
    show "coerce_args example_schema None (args ?pd) [] = Inr []"
      by simp
    show "invoke ?pd ''posts'' (JObj ann) [] blog_store
        = (Inr (JList [JObj first_post, JObj untitled_post]), blog_store)"
      by (simp add: invoke_def User_posts_def client_simps first_post_def untitled_post_def)
    show "violation_value example_schema None (ftype ?pd) (JList [JObj first_post, JObj untitled_post])
        ?posts ([Key ''user''] @ [Key (out_key None ''posts'')]) blog_store
        [] [Index 1, Key ''title''] ?m [] blog_store"
      using items
      by (simp add: out_key_def absent_def below_non_null below_list)
  qed
  have user_fields: "violation_fields example_schema None ''User'' (JObj ann)
      ([leaf ''name''] @ FieldNode None ''posts'' [] ?posts # []) [Key ''user''] blog_store
      ([] @ []) (Key (out_key None ''posts'') # [Index 1, Key ''title'']) ?m ([] @ []) blog_store"
  proof (rule among_fields [OF _ posts])
    show "exec_fields example_schema None ''User'' (JObj ann) [leaf ''name''] [Key ''user''] blog_store
        = (Some [(''name'', JStr ''Ann'')], [], blog_store)"
      by (simp add: leaf_def out_key_def absent_def invoke_def getprop_def ann_def schema_simps)
    show "exec_fields example_schema None ''User'' (JObj ann) [] [Key ''user''] blog_store
        = (Some [], [], blog_store)"
      by simp
  qed
  have below: "violation_present example_schema None (ftype ?fd) (JObj ann) ann_posts
      ([] @ [Key (out_key None ''user'')]) blog_store
      [] [Key ''posts'', Index 1, Key ''title''] ?m [] blog_store"
  proof -
    have "is_object example_schema ''User''"
      by (simp add: schema_simps)
    from below_object [OF this] user_fields show ?thesis
      by (simp add: ann_posts_def out_key_def)
  qed
  have a1: "field_of example_schema ''RootQueryType'' ''user'' = Some ?fd"
    by (simp add: schema_simps)
  have a2: "\<not> required (ftype ?fd)"
    by simp
  have a3: "coerce_args example_schema None (args ?fd)
      [(''id'', Lit (JStr ''11111111-1111-4111-8111-111111111111''))]
      = Inr [(''id'', JStr ''11111111-1111-4111-8111-111111111111'')]"
    by (simp add: eval_arg_def absent_def schema_simps)
  have a4: "exec_fields example_schema None ''RootQueryType'' JUndefined
      [FieldNode None ''memberTypes'' [] [leaf ''id'']] [] blog_store
      = (Some [(''memberTypes'', JList [])], [], blog_store)"
    by (simp add: leaf_def out_key_def absent_def schema_simps client_simps resolver_simps)
  have a5: "invoke ?fd ''user'' JUndefined [(''id'', JStr ''11111111-1111-4111-8111-111111111111'')]
      blog_store = (Inr (JObj ann), blog_store)"
    by (simp add: client_simps resolver_simps)
  have a6: "\<not> absent (JObj ann)"
    by (simp add: absent_def)
  have a7: "exec_fields example_schema None ''RootQueryType'' JUndefined
      [FieldNode None ''users'' [] [leaf ''name'']] [] blog_store
      = (Some [(''users'', JList [JObj [(''name'', JStr ''Ann'')]])], [], blog_store)"
    by (simp add: leaf_def out_key_def absent_def schema_simps client_simps resolver_simps)
  from non_null_failure_nulls_nearest_nullable_ancestor [OF a1 a2 a3 a4 a5 a6 below a7]
  show ?thesis
    by (simp add: blog_query_def out_key_def)
qed

section \<open>Lookups of entities that do not exist\<close>

text \<open>
  C4. For every query that requests a single entity by id through one of the nullable
  root fields \<open>memberType\<close>, \<open>user\<close>, \<open>post\<close>, \<open>profile\<close>, and passes
  validation: when the repository lookup \<open>findFirst({ where: { id } })\<close> on that
  entity's model returns absent, the handler replies with \<open>data.<field> = null\<close> and
  an empty error list.
\<close>

theorem absent_entity_is_null_without_error:
  assumes which: "(f, m) \<in> set [(''memberType'', M_memberType), (''user'', M_user),
        (''post'', M_post), (''profile'', M_profile)]"
    and doc: "doc = \<lparr>operation = OpQuery, selections = [FieldNode al f [(''id'', Lit i)] sels]\<rparr>"
    and parses: "parse_fn (query req) = Inr doc"
    and shallow: "run_rules (createGraphQLSchema scalars pc) doc [depth_rule limit] = []"
    and valid: "run_rules (createGraphQLSchema scalars pc) doc specifiedRules = []"
    and lookup: "findFirst pc m (where_arg [(''id'', i)]) s = Inr None"
  shows "handler_depthLimit (engine parse_fn) (createGraphQLSchema scalars pc) req s
      = (Inr \<lparr>data = Some (JObj [(out_key al f, JNull)]), errors = []\<rparr>, s)"
proof -
  let ?sch = "createGraphQLSchema scalars pc"
  obtain K t where fd: "field_of ?sch ''RootQueryType'' f
        = Some \<lparr>ftype = GraphQLNamed K, args = [(''id'', GraphQLNonNull t)],
                resolve = Some (find_by_id pc m f)\<rparr>"
    using which
    by (auto simp: field_of_def fields_of_def type_of_def createGraphQLSchema_def MemberTypeId_def
        MemberType_def Post_def Profile_def User_def RootQueryType_def)
  from valid have ok: "valid_value ?sch (GraphQLNonNull t) i"
    using fd
    by (simp add: doc run_rules_def specifiedRules_def structure_rule_def root_type_def
        createGraphQLSchema_def check_args_def split: if_splits)
  then have present: "\<not> absent i" and inner: "valid_value ?sch t i"
    by simp_all
  from present have defined: "i \<noteq> JUndefined"
    by (auto simp: absent_def)
  have coerce: "coerce_args ?sch (variables req) [(''id'', GraphQLNonNull t)] [(''id'', Lit i)]
      = Inr [(''id'', i)]"
    using present inner defined by (simp add: eval_arg_def)
  have resolved: "invoke \<lparr>ftype = GraphQLNamed K, args = [(''id'', GraphQLNonNull t)],
        resolve = Some (find_by_id pc m f)\<rparr> f JUndefined [(''id'', i)] s = (Inr JNull, s)"
    using lookup by (simp add: invoke_def find_by_id_def first_or_null_def row_or_null_def arg_def)
  have field: "exec_field ?sch (variables req) ''RootQueryType'' JUndefined
        (FieldNode al f [(''id'', Lit i)] sels) [] s = (Some JNull, [], s)"
    using fd coerce resolved by (simp add: absent_def)
  have "execute ?sch doc (variables req) s
      = (\<lparr>data = Some (JObj [(out_key al f, JNull)]), errors = []\<rparr>, s)"
    using field by (simp add: execute_def root_type_def doc createGraphQLSchema_def)
  with parses shallow valid show ?thesis
    by (simp add: handler_depthLimit_def engine_def engine_with_def graphql_pipeline_def)
qed

theorem absent_entity_witness:
  "findFirst memory_prisma M_user (where_arg [(''id'', missing_id)]) example_store = Inr None
   \<and> handler_depthLimit (engine (parse_as missing_user)) example_schema some_request example_store
     = (Inr \<lparr>data = Some (JObj [(''user'', JNull)]), errors = []\<rparr>, example_store)"
proof -
  have w: "(''user'', M_user) \<in> set [(''memberType'', M_memberType), (''user'', M_user),
        (''post'', M_post), (''profile'', M_profile)]"
    by simp
  have d: "missing_user = \<lparr>operation = OpQuery,
      selections = [FieldNode None ''user'' [(''id'', Lit missing_id)] [leaf ''name'']]\<rparr>"
    by (simp add: missing_user_def)
  have p: "parse_as missing_user (query some_request) = Inr missing_user"
    by (simp add: parse_as_def)
  have s: "run_rules (createGraphQLSchema standard_scalars memory_prisma) missing_user
      [depth_rule limit] = []"
    by (simp add: run_rules_def depth_rule_def document_depth_def limit_def missing_user_def
        leaf_def)
  have v: "run_rules (createGraphQLSchema standard_scalars memory_prisma) missing_user
      specifiedRules = []"
    by (simp add: run_rules_def specifiedRules_def structure_rule_def root_type_def
        check_args_def missing_user_def missing_id_def leaf_def absent_def schema_simps)
  have l: "findFirst memory_prisma M_user (where_arg [(''id'', missing_id)]) example_store
      = Inr None"
    by (simp add: client_simps missing_id_def)
  from absent_entity_is_null_without_error [where parse_fn = "parse_as missing_user"
      and req = some_request, OF w d p s v l] l
  show ?thesis
    by (simp add: example_schema_def out_key_def)
qed

section \<open>Failing mutations\<close>

text \<open>
  C6, as amended. For every mutation resolver and every failure of the repository call
  it makes, the request is still answered: the response has \<open>data = null\<close> (every
  mutation field is non-null) and exactly one field-level error at the field's path.
  The message of that error is the resolver's fixed prefix followed by the message of
  the underlying error, so it contains that text.
\<close>

theorem failing_mutation_reports_prefixed_message:
  assumes which: "(f, pfx, call) \<in> set (mutation_calls pc)"
    and doc: "doc = \<lparr>operation = OpMutation, selections = [FieldNode al f as sels]\<rparr>"
    and parses: "parse_fn (query req) = Inr doc"
    and shallow: "run_rules (createGraphQLSchema scalars pc) doc [depth_rule limit] = []"
    and valid: "run_rules (createGraphQLSchema scalars pc) doc specifiedRules = []"
    and field: "field_of (createGraphQLSchema scalars pc) ''Mutations'' f = Some fd"
    and coerced: "coerce_args (createGraphQLSchema scalars pc) (variables req) (args fd) as = Inr avs"
    and fails: "call avs s = (Inl e, s')"
  shows "handler_depthLimit (engine parse_fn) (createGraphQLSchema scalars pc) req s
      = (Inr \<lparr>data = Some JNull,
               errors = [ferr [Key (out_key al f)] (pfx @ error_message e)]\<rparr>, s')
    \<and> sublist (error_message e) (message (ferr [Key (out_key al f)] (pfx @ error_message e)))"
proof -
  let ?sch = "createGraphQLSchema scalars pc"
  have fields: "fields_of ?sch ''Mutations'' = snd (case Mutations pc of (n, GraphQLObjectType fs) \<Rightarrow> (n, fs))"
    by (simp add: fields_of_def type_of_def createGraphQLSchema_def MemberTypeId_def
        MemberType_def Post_def Profile_def User_def RootQueryType_def Mutations_def
        ChangePostInput_def ChangeProfileInput_def ChangeUserInput_def
        CreatePostInput_def CreateProfileInput_def CreateUserInput_def)
  have thrown: "invoke fd f JUndefined avs s = (Inl (ErrorObj (pfx @ error_message e)), s')"
    and non_null: "required (ftype fd)"
    using which field fails
    by (auto simp: mutation_calls_def field_of_def fields Mutations_def invoke_def
        create_entity_def change_entity_def delete_entity_def subscribeTo_def unsubscribeFrom_def
        rethrow_def returning_row_def returning_def)
  have "exec_field ?sch (variables req) ''Mutations'' JUndefined (FieldNode al f as sels) [] s
      = (None, [ferr [Key (out_key al f)] (pfx @ error_message e)], s')"
    using field coerced thrown non_null by (simp add: failed_def)
  then have "execute ?sch doc (variables req) s
      = (\<lparr>data = Some JNull, errors = [ferr [Key (out_key al f)] (pfx @ error_message e)]\<rparr>, s')"
    by (simp add: execute_def root_type_def doc createGraphQLSchema_def)
  with parses shallow valid
  have "handler_depthLimit (engine parse_fn) ?sch req s
      = (Inr \<lparr>data = Some JNull,
               errors = [ferr [Key (out_key al f)] (pfx @ error_message e)]\<rparr>, s')"
    by (simp add: handler_depthLimit_def engine_def engine_with_def graphql_pipeline_def)
  moreover have "sublist (error_message e) (pfx @ error_message e @ [])"
    by (rule sublist_appendI)
  ultimately show ?thesis
    by (simp add: ferr_def)
qed

theorem failing_mutation_witness:
  "update memory_prisma M_user
       (JObj [(''where'', JObj [(''id'', missing_id)]), (''data'', JObj [(''name'', JStr ''Bob'')])])
       example_store
     = (Inl (ErrorObj ''Record to update not found''), example_store)
   \<and> handler_depthLimit (engine (parse_as change_missing)) example_schema some_request example_store
     = (Inr \<lparr>data = Some JNull,
              errors = [ferr [Key ''changeUser''] ''Failed to update user: Record to update not found'']\<rparr>,
        example_store)"
proof -
  let ?call = "\<lambda>as. update memory_prisma M_user
      (JObj [(''where'', JObj [(''id'', arg as ''id'')]), (''data'', arg as ''dto'')])"
  let ?fd = "\<lparr>ftype = GraphQLNonNull (GraphQLNamed ''User''),
      args = [(''id'', GraphQLNonNull UUIDType),
              (''dto'', GraphQLNonNull (GraphQLNamed ''ChangeUserInput''))],
      resolve = Some (change_entity memory_prisma M_user ''user'')\<rparr>"
  let ?avs = "[(''id'', missing_id), (''dto'', JObj [(''name'', JStr ''Bob'')])]"
  have w: "(''changeUser'', ''Failed to update user: '', ?call) \<in> set (mutation_calls memory_prisma)"
    by (simp add: mutation_calls_def)
  have d: "change_missing = \<lparr>operation = OpMutation,
      selections = [FieldNode None ''changeUser''
        [(''id'', Lit missing_id), (''dto'', Lit (JObj [(''name'', JStr ''Bob'')]))]
        [leaf ''id'']]\<rparr>"
    by (simp add: change_missing_def)
  have p: "parse_as change_missing (query some_request) = Inr change_missing"
    by (simp add: parse_as_def)
  have s: "run_rules (createGraphQLSchema standard_scalars memory_prisma) change_missing
      [depth_rule limit] = []"
    by (simp add: run_rules_def depth_rule_def document_depth_def limit_def change_missing_def
        leaf_def)
  have v: "run_rules (createGraphQLSchema standard_scalars memory_prisma) change_missing
      specifiedRules = []"
    by (simp add: run_rules_def specifiedRules_def structure_rule_def root_type_def
        check_args_def change_missing_def missing_id_def leaf_def absent_def getprop_def
        schema_simps)
  have f: "field_of (createGraphQLSchema standard_scalars memory_prisma) ''Mutations'' ''changeUser''
      = Some ?fd"
    by (simp add: schema_simps)
  have c: "coerce_args (createGraphQLSchema standard_scalars memory_prisma) (variables some_request)
      (args ?fd) [(''id'', Lit missing_id), (''dto'', Lit (JObj [(''name'', JStr ''Bob'')]))]
      = Inr ?avs"
    by (simp add: eval_arg_def missing_id_def absent_def getprop_def schema_simps)
  have e: "?call ?avs example_store = (Inl (ErrorObj ''Record to update not found''), example_store)"
    by (simp add: client_simps missing_id_def)
  from failing_mutation_reports_prefixed_message [where parse_fn = "parse_as change_missing"
      and req = some_request and call = ?call, OF w d p s v f c e] e
  show ?thesis
    by (simp add: example_schema_def out_key_def arg_def)
qed

text \<open>
  C6, as stated, fails: when the database cannot be reached, the repository call of
  \<open>createUser\<close> fails with a transport error, an internal one, and the message of the
  field error in the response contains the text of that error.
\<close>

theorem internal_message_reaches_the_client:
  "create offline_prisma M_user
       (JObj [(''data'', JObj [(''name'', JStr ''Ann''), (''balance'', JNum 0)])]) empty_store
     = (Inl (ErrorObj ''connect ECONNREFUSED 10.0.0.5:5432''), empty_store)
   \<and> handler_depthLimit (engine (parse_as create_ann))
       (createGraphQLSchema standard_scalars offline_prisma) some_request empty_store
     = (Inr \<lparr>data = Some JNull,
              errors = [ferr [Key ''createUser'']
                 ''Failed to create user: connect ECONNREFUSED 10.0.0.5:5432'']\<rparr>,
        empty_store)
   \<and> sublist ''connect ECONNREFUSED 10.0.0.5:5432''
       (message (ferr [Key ''createUser'']
          ''Failed to create user: connect ECONNREFUSED 10.0.0.5:5432''))"
proof -
  have e: "create offline_prisma M_user
       (JObj [(''data'', JObj [(''name'', JStr ''Ann''), (''balance'', JNum 0)])]) empty_store
     = (Inl (ErrorObj ''connect ECONNREFUSED 10.0.0.5:5432''), empty_store)"
    by (simp add: offline_prisma_def offline_def)
  have h: "handler_depthLimit (engine (parse_as create_ann))
       (createGraphQLSchema standard_scalars offline_prisma) some_request empty_store
     = (Inr \<lparr>data = Some JNull,
              errors = [ferr [Key ''createUser'']
                 ''Failed to create user: connect ECONNREFUSED 10.0.0.5:5432'']\<rparr>,
        empty_store)"
    by (simp add: engine_simps create_ann_def eval_arg_def offline_prisma_def offline_def
        getprop_def arg_def schema_simps resolver_simps)
  have "sublist ''connect ECONNREFUSED 10.0.0.5:5432''
      (''Failed to create user: '' @ ''connect ECONNREFUSED 10.0.0.5:5432'' @ [])"
    by (rule sublist_appendI)
  then have m: "sublist ''connect ECONNREFUSED 10.0.0.5:5432''
      (message (ferr [Key ''createUser'']
          ''Failed to create user: connect ECONNREFUSED 10.0.0.5:5432''))"
    by (simp add: ferr_def)
  from e h m show ?thesis
    by blast
qed

section \<open>The \<open>dto\<close> argument of \<open>createProfile\<close>\<close>

text \<open>
  C9. \<open>createProfile\<close> declares its \<open>dto\<close> argument with the nullable type
  \<open>CreateProfileInput\<close>, while \<open>createUser\<close> and \<open>createPost\<close> declare theirs
  non-null. So the argument check of validation reports nothing for a
  \<open>createProfile\<close> without \<open>dto\<close> and reports an error for \<open>createUser\<close> and
  \<open>createPost\<close> without \<open>dto\<close>. When such a \<open>createProfile\<close> document passes
  validation, its resolver is invoked and calls the repository with
  \<open>data: undefined\<close>: the reply is decided by that call alone, a field error with
  the prefix \<open>Failed to create profile: \<close> when it fails and the completed row when it
  returns.
\<close>

theorem createProfile_without_dto_reaches_the_repository:
  assumes doc: "doc = \<lparr>operation = OpMutation,
        selections = [FieldNode al ''createProfile'' [] sels]\<rparr>"
    and parses: "parse_fn (query req) = Inr doc"
    and shallow: "run_rules (createGraphQLSchema scalars pc) doc [depth_rule limit] = []"
    and valid: "run_rules (createGraphQLSchema scalars pc) doc specifiedRules = []"
  shows "map_option args (field_of (createGraphQLSchema scalars pc) ''Mutations'' ''createProfile'')
        = Some [(''dto'', GraphQLNamed ''CreateProfileInput'')]
    \<and> map_option args (field_of (createGraphQLSchema scalars pc) ''Mutations'' ''createUser'')
        = Some [(''dto'', GraphQLNonNull (GraphQLNamed ''CreateUserInput''))]
    \<and> map_option args (field_of (createGraphQLSchema scalars pc) ''Mutations'' ''createPost'')
        = Some [(''dto'', GraphQLNonNull (GraphQLNamed ''CreatePostInput''))]
    \<and> check_args (createGraphQLSchema scalars pc) [(''dto'', GraphQLNamed ''CreateProfileInput'')] [] = []
    \<and> check_args (createGraphQLSchema scalars pc)
          [(''dto'', GraphQLNonNull (GraphQLNamed ''CreateUserInput''))] [] \<noteq> []
    \<and> check_args (createGraphQLSchema scalars pc)
          [(''dto'', GraphQLNonNull (GraphQLNamed ''CreatePostInput''))] [] \<noteq> []
    \<and> handler_depthLimit (engine parse_fn) (createGraphQLSchema scalars pc) req s
        = (case create pc M_profile (JObj [(''data'', JUndefined)]) s of
             (Inl e, s') \<Rightarrow>
               (Inr \<lparr>data = Some JNull,
                      errors = [ferr [Key (out_key al ''createProfile'')]
                                  (''Failed to create profile: '' @ error_message e)]\<rparr>, s')
           | (Inr r, s') \<Rightarrow>
               (case complete_value (createGraphQLSchema scalars pc) (variables req)
                       (GraphQLNonNull (GraphQLNamed ''Profile'')) (JObj r) sels
                       [Key (out_key al ''createProfile'')] s' of
                  (x, es, s'') \<Rightarrow>
                    (Inr \<lparr>data = Some (case x of None \<Rightarrow> JNull
                                        | Some v \<Rightarrow> JObj [(out_key al ''createProfile'', v)]),
                           errors = es\<rparr>, s'')))"
proof -
  let ?sch = "createGraphQLSchema scalars pc"
  have fields: "fields_of ?sch ''Mutations'' = (case Mutations pc of (n, GraphQLObjectType fs) \<Rightarrow> fs)"
    by (simp add: fields_of_def type_of_def createGraphQLSchema_def MemberTypeId_def
        MemberType_def Post_def Profile_def User_def RootQueryType_def Mutations_def
        ChangePostInput_def ChangeProfileInput_def ChangeUserInput_def
        CreatePostInput_def CreateProfileInput_def CreateUserInput_def)
  have fd: "field_of ?sch ''Mutations'' ''createProfile''
      = Some \<lparr>ftype = GraphQLNonNull (GraphQLNamed ''Profile''),
              args = [(''dto'', GraphQLNamed ''CreateProfileInput'')],
              resolve = Some (create_entity pc M_profile ''profile'')\<rparr>"
    by (simp add: field_of_def fields Mutations_def)
  have declared: "map_option args (field_of ?sch ''Mutations'' ''createProfile'')
        = Some [(''dto'', GraphQLNamed ''CreateProfileInput'')]
    \<and> map_option args (field_of ?sch ''Mutations'' ''createUser'')
        = Some [(''dto'', GraphQLNonNull (GraphQLNamed ''CreateUserInput''))]
    \<and> map_option args (field_of ?sch ''Mutations'' ''createPost'')
        = Some [(''dto'', GraphQLNonNull (GraphQLNamed ''CreatePostInput''))]"
    by (simp add: field_of_def fields Mutations_def)
  have checks: "check_args ?sch [(''dto'', GraphQLNamed ''CreateProfileInput'')] [] = []
    \<and> check_args ?sch [(''dto'', GraphQLNonNull (GraphQLNamed ''CreateUserInput''))] [] \<noteq> []
    \<and> check_args ?sch [(''dto'', GraphQLNonNull (GraphQLNamed ''CreatePostInput''))] [] \<noteq> []"
    by (simp add: check_args_def)
  have coerce: "coerce_args ?sch (variables req) [(''dto'', GraphQLNamed ''CreateProfileInput'')] []
      = Inr []"
    by (simp add: absent_def)
  have field: "exec_field ?sch (variables req) ''Mutations'' JUndefined
        (FieldNode al ''createProfile'' [] sels) [] s
      = (case create pc M_profile (JObj [(''data'', JUndefined)]) s of
           (Inl e, s') \<Rightarrow>
             (None, [ferr [Key (out_key al ''createProfile'')]
                       (''Failed to create profile: '' @ error_message e)], s')
         | (Inr r, s') \<Rightarrow>
             complete_value ?sch (variables req) (GraphQLNonNull (GraphQLNamed ''Profile''))
               (JObj r) sels [Key (out_key al ''createProfile'')] s')"
    using fd coerce
    by (simp add: invoke_def create_entity_def rethrow_def returning_row_def arg_def failed_def
        split: prod.splits sum.splits)
  have "execute ?sch doc (variables req) s
      = (case create pc M_profile (JObj [(''data'', JUndefined)]) s of
             (Inl e, s') \<Rightarrow>
               (\<lparr>data = Some JNull,
                      errors = [ferr [Key (out_key al ''createProfile'')]
                                  (''Failed to create profile: '' @ error_message e)]\<rparr>, s')
           | (Inr r, s') \<Rightarrow>
               (case complete_value ?sch (variables req)
                       (GraphQLNonNull (GraphQLNamed ''Profile'')) (JObj r) sels
                       [Key (out_key al ''createProfile'')] s' of
                  (x, es, s'') \<Rightarrow>
                    (\<lparr>data = Some (case x of None \<Rightarrow> JNull
                                        | Some v \<Rightarrow> JObj [(out_key al ''createProfile'', v)]),
                           errors = es\<rparr>, s'')))"
    using field
    by (simp add: execute_def root_type_def doc createGraphQLSchema_def
        split: prod.splits sum.splits option.splits)
  with parses shallow valid
  have "handler_depthLimit (engine parse_fn) ?sch req s
        = (case create pc M_profile (JObj [(''data'', JUndefined)]) s of
             (Inl e, s') \<Rightarrow>
               (Inr \<lparr>data = Some JNull,
                      errors = [ferr [Key (out_key al ''createProfile'')]
                                  (''Failed to create profile: '' @ error_message e)]\<rparr>, s')
           | (Inr r, s') \<Rightarrow>
               (case complete_value ?sch (variables req)
                       (GraphQLNonNull (GraphQLNamed ''Profile'')) (JObj r) sels
                       [Key (out_key al ''createProfile'')] s' of
                  (x, es, s'') \<Rightarrow>
                    (Inr \<lparr>data = Some (case x of None \<Rightarrow> JNull
                                        | Some v \<Rightarrow> JObj [(out_key al ''createProfile'', v)]),
                           errors = es\<rparr>, s'')))"
    by (simp add: handler_depthLimit_def engine_def engine_with_def graphql_pipeline_def
        split: prod.splits sum.splits)
  with declared checks show ?thesis
    by blast
qed

theorem createProfile_without_dto_witness:
  "run_rules example_schema create_profile_without_dto specifiedRules = []
   \<and> create memory_prisma M_profile (JObj [(''data'', JUndefined)]) empty_store
     = (Inl (ErrorObj ''Argument data is missing''), empty_store)
   \<and> handler_depthLimit (engine (parse_as create_profile_without_dto)) example_schema
       some_request empty_store
     = (Inr \<lparr>data = Some JNull,
              errors = [ferr [Key ''createProfile'']
                 ''Failed to create profile: Argument data is missing'']\<rparr>,
        empty_store)"
proof -
  have d: "create_profile_without_dto = \<lparr>operation = OpMutation,
      selections = [FieldNode None ''createProfile'' [] [leaf ''id'']]\<rparr>"
    by (simp add: create_profile_without_dto_def)
  have p: "parse_as create_profile_without_dto (query some_request) = Inr create_profile_without_dto"
    by (simp add: parse_as_def)
  have s: "run_rules (createGraphQLSchema standard_scalars memory_prisma)
      create_profile_without_dto [depth_rule limit] = []"
    by (simp add: run_rules_def depth_rule_def document_depth_def limit_def
        create_profile_without_dto_def leaf_def)
  have v: "run_rules (createGraphQLSchema standard_scalars memory_prisma)
      create_profile_without_dto specifiedRules = []"
    by (simp add: run_rules_def specifiedRules_def structure_rule_def root_type_def
        check_args_def create_profile_without_dto_def leaf_def schema_simps)
  have c: "create memory_prisma M_profile (JObj [(''data'', JUndefined)]) empty_store
     = (Inl (ErrorObj ''Argument data is missing''), empty_store)"
    by (simp add: memory_prisma_def getprop_def)
  from createProfile_without_dto_reaches_the_repository
    [where parse_fn = "parse_as create_profile_without_dto" and req = some_request
      and s = empty_store, OF d p s v]
  have "handler_depthLimit (engine (parse_as create_profile_without_dto))
       (createGraphQLSchema standard_scalars memory_prisma) some_request empty_store
     = (Inr \<lparr>data = Some JNull,
              errors = [ferr [Key ''createProfile'']
                 ''Failed to create profile: Argument data is missing'']\<rparr>,
        empty_store)"
    by (simp add: c out_key_def)
  with v c show ?thesis
    by (simp add: example_schema_def)
qed

section \<open>The schema surface\<close>

text \<open>
  C7, as amended. The query root exposes, for each of the entity kinds \<open>MemberType\<close>,
  \<open>User\<close>, \<open>Post\<close> and \<open>Profile\<close>, a collection field resolved by \<open>findMany()\<close> and a
  lookup by id resolved by \<open>findFirst\<close>. The mutation root exposes create, update and
  delete operations for \<open>User\<close>, \<open>Post\<close> and \<open>Profile\<close>, none of them for
  \<open>MemberType\<close>, and exactly two relation-toggling operations, \<open>subscribeTo\<close> and
  \<open>unsubscribeFrom\<close>, resolved by creating and deleting a row of
  \<open>subscribersOnAuthors\<close>. The mutation root has these eleven fields and no other.
\<close>

theorem schema_surface:
  "list_all (\<lambda>K. exposes_collection (createGraphQLSchema scalars pc) K
                \<and> exposes_lookup (createGraphQLSchema scalars pc) K)
       [''MemberType'', ''User'', ''Post'', ''Profile'']
   \<and> list_all (\<lambda>(coll, single, m).
          map_option resolve (field_of (createGraphQLSchema scalars pc) ''RootQueryType'' coll)
            = Some (Some (find_all pc m))
        \<and> map_option resolve (field_of (createGraphQLSchema scalars pc) ''RootQueryType'' single)
            = Some (Some (find_by_id pc m single)))
       [(''memberTypes'', ''memberType'', M_memberType), (''users'', ''user'', M_user),
        (''posts'', ''post'', M_post), (''profiles'', ''profile'', M_profile)]
   \<and> list_all (\<lambda>K. exposes_create (createGraphQLSchema scalars pc) K
                \<and> exposes_update (createGraphQLSchema scalars pc) K
                \<and> exposes_delete (createGraphQLSchema scalars pc) K)
       [''User'', ''Post'', ''Profile'']
   \<and> \<not> exposes_create (createGraphQLSchema scalars pc) ''MemberType''
   \<and> \<not> exposes_update (createGraphQLSchema scalars pc) ''MemberType''
   \<and> \<not> exposes_delete (createGraphQLSchema scalars pc) ''MemberType''
   \<and> relation_toggles (createGraphQLSchema scalars pc) = [''subscribeTo'', ''unsubscribeFrom'']
   \<and> map_option resolve (field_of (createGraphQLSchema scalars pc) ''Mutations'' ''subscribeTo'')
        = Some (Some (subscribeTo pc))
   \<and> map_option resolve (field_of (createGraphQLSchema scalars pc) ''Mutations'' ''unsubscribeFrom'')
        = Some (Some (unsubscribeFrom pc))
   \<and> map fst (mutation_fields (createGraphQLSchema scalars pc)) = map fst (mutation_calls pc)"
proof -
  let ?sch = "createGraphQLSchema scalars pc"
  have q: "fields_of ?sch ''RootQueryType'' = (case RootQueryType pc of (n, GraphQLObjectType fs) \<Rightarrow> fs)"
    by (simp add: fields_of_def type_of_def createGraphQLSchema_def MemberTypeId_def
        MemberType_def Post_def Profile_def User_def RootQueryType_def)
  have m: "fields_of ?sch ''Mutations'' = (case Mutations pc of (n, GraphQLObjectType fs) \<Rightarrow> fs)"
    by (simp add: fields_of_def type_of_def createGraphQLSchema_def MemberTypeId_def
        MemberType_def Post_def Profile_def User_def RootQueryType_def Mutations_def
        ChangePostInput_def ChangeProfileInput_def ChangeUserInput_def
        CreatePostInput_def CreateProfileInput_def CreateUserInput_def)
  have qf: "query_fields ?sch = (case RootQueryType pc of (n, GraphQLObjectType fs) \<Rightarrow> fs)"
    using q by (simp add: query_fields_def createGraphQLSchema_def)
  have mf: "mutation_fields ?sch = (case Mutations pc of (n, GraphQLObjectType fs) \<Rightarrow> fs)"
    using m by (simp add: mutation_fields_def createGraphQLSchema_def)
  have c1: "list_all (\<lambda>K. exposes_collection ?sch K \<and> exposes_lookup ?sch K)
       [''MemberType'', ''User'', ''Post'', ''Profile'']"
    by (simp add: exposes_collection_def exposes_lookup_def qf RootQueryType_def list_of_def
        UUIDType_def)
  have c2: "list_all (\<lambda>(coll, single, m).
          map_option resolve (field_of ?sch ''RootQueryType'' coll) = Some (Some (find_all pc m))
        \<and> map_option resolve (field_of ?sch ''RootQueryType'' single)
            = Some (Some (find_by_id pc m single)))
       [(''memberTypes'', ''memberType'', M_memberType), (''users'', ''user'', M_user),
        (''posts'', ''post'', M_post), (''profiles'', ''profile'', M_profile)]"
    by (simp add: field_of_def q RootQueryType_def)
  have c3: "list_all (\<lambda>K. exposes_create ?sch K \<and> exposes_update ?sch K \<and> exposes_delete ?sch K)
       [''User'', ''Post'', ''Profile'']"
    by (simp add: exposes_create_def exposes_update_def exposes_delete_def mf Mutations_def
        GraphQLString_def UUIDType_def)
  have c4: "\<not> exposes_create ?sch ''MemberType'' \<and> \<not> exposes_update ?sch ''MemberType''
      \<and> \<not> exposes_delete ?sch ''MemberType''"
    by (simp add: exposes_create_def exposes_update_def exposes_delete_def mf Mutations_def
        GraphQLString_def UUIDType_def)
  have c5: "relation_toggles ?sch = [''subscribeTo'', ''unsubscribeFrom'']"
    by (simp add: relation_toggles_def mf Mutations_def)
  have c6: "map_option resolve (field_of ?sch ''Mutations'' ''subscribeTo'') = Some (Some (subscribeTo pc))
      \<and> map_option resolve (field_of ?sch ''Mutations'' ''unsubscribeFrom'')
        = Some (Some (unsubscribeFrom pc))"
    by (simp add: field_of_def m Mutations_def)
  have c7: "map fst (mutation_fields ?sch) = map fst (mutation_calls pc)"
    by (simp add: mf Mutations_def mutation_calls_def)
  from c1 c2 c3 c4 c5 c6 c7 show ?thesis
    by blast
qed

text \<open>
  C7, as stated, fails: the mutation root has no create, update or delete operation
  for the entity kind \<open>MemberType\<close>.
\<close>

theorem no_mutations_for_member_types:
  "\<not> (list_all (\<lambda>K. exposes_create example_schema K \<and> exposes_update example_schema K
                    \<and> exposes_delete example_schema K)
         [''MemberType'', ''User'', ''Post'', ''Profile''])"
proof -
  have "mutation_fields example_schema = (case Mutations memory_prisma of (n, GraphQLObjectType fs) \<Rightarrow> fs)"
    by (simp add: mutation_fields_def schema_simps)
  then have "\<not> exposes_create example_schema ''MemberType''"
    by (simp add: exposes_create_def Mutations_def GraphQLString_def UUIDType_def)
  then show ?thesis
    by simp
qed

end
